(* ===== verification/Prelude.thy ===== *)
theory Prelude
  imports Complex_Main "HOL-Library.Multiset"
begin

text \<open>
  Shared vocabulary of the development: the types that name the model's values
  (timestamps in milliseconds, APY percentages), the JavaScript number builtins the
  sources call (\<^verbatim>\<open>Math.round\<close>, \<^verbatim>\<open>Math.ceil\<close> on a millisecond
  difference, \<^verbatim>\<open>Number.prototype.toFixed\<close>, template-literal printing of an
  integral number, \<^verbatim>\<open>||\<close> on strings) as exact functions on \<^typ>\<open>real\<close>,
  \<^typ>\<open>int\<close> and \<^typ>\<open>string\<close>, and the generic lemmas about them that the
  component theories use.
  JavaScript numbers are IEEE doubles; the model reads them as exact reals. The header
  of \<open>Spec2Isabelle\<close> says where this matters.
\<close>

named_theorems score_simps "the effect of each block of the scorer on its accumulator and result"
named_theorems eval_simps "definitions unfolded to evaluate the model on concrete inputs"

type_synonym timestamp = int \<comment> \<open>\<^verbatim>\<open>Date.getTime()\<close>: milliseconds since the epoch\<close>
type_synonym percent = real \<comment> \<open>an APY in percent, 12.5 for 12.5\%\<close>

definition ms_per_day :: int where
  "ms_per_day = 1000 * 60 * 60 * 24"

text \<open>\<^verbatim>\<open>Math.round(x)\<close> rounds half-way cases towards \<open>+\<infinity>\<close>: it is \<open>\<lfloor>x + 1/2\<rfloor>\<close>.\<close>

definition js_round :: "real \<Rightarrow> int" where
  "js_round x = \<lfloor>x + 1/2\<rfloor>"

text \<open>
  \<^verbatim>\<open>Math.ceil((a - b) / (1000 * 60 * 60 * 24))\<close> on two millisecond timestamps: the
  whole number of started days between them.
\<close>

definition days_between :: "timestamp \<Rightarrow> timestamp \<Rightarrow> int" where
  "days_between later earlier = \<lceil>real_of_int (later - earlier) / real_of_int ms_per_day\<rceil>"

text \<open>Decimal printing, as JavaScript prints an integral number in a template literal.\<close>

fun nat_digits :: "nat \<Rightarrow> string" where
  "nat_digits n = (if n < 10 then [char_of (48 + n)]
                   else nat_digits (n div 10) @ [char_of (48 + n mod 10)])"

declare nat_digits.simps [simp del]

definition js_int_string :: "int \<Rightarrow> string" where
  "js_int_string i = (if i < 0 then CHR ''-'' # nat_digits (nat (- i)) else nat_digits (nat i))"

text \<open>
  \<^verbatim>\<open>x.toFixed(2)\<close> for \<open>|x| < 10^21\<close>: the sign, then the integer \<open>n\<close> nearest to
  \<open>|x| * 100\<close> (the larger one on a tie) printed with two decimals.
\<close>

definition to_fixed2 :: "real \<Rightarrow> string" where
  "to_fixed2 x =
     (let n = nat \<lfloor>\<bar>x\<bar> * 100 + 1/2\<rfloor>;
          ds = nat_digits n;
          m = replicate (3 - length ds) (CHR ''0'') @ ds
      in (if x < 0 then ''-'' else '''') @ take (length m - 2) m @ ''.'' @ drop (length m - 2) m)"

text \<open>JavaScript's \<^verbatim>\<open>a || b\<close> on an optional string: the empty string is falsy.\<close>

fun js_or :: "string option \<Rightarrow> string option \<Rightarrow> string option" where
  "js_or (Some s) b = (if s = [] then b else Some s)"
| "js_or None b = b"

section \<open>Lemmas on the number builtins\<close>

lemma ms_per_day_val [simp]: "ms_per_day = 86400000"
  by (simp add: ms_per_day_def)

lemma js_round_of_int [simp]: "js_round (real_of_int n) = n"
  by (simp add: js_round_def)

lemma js_round_numeral [simp]: "js_round (numeral n) = numeral n"
  and js_round_neg_numeral [simp]: "js_round (- numeral n) = - numeral n"
  by (simp_all add: js_round_def)

lemma js_round_bounds: "x - 1/2 < real_of_int (js_round x) \<and> real_of_int (js_round x) \<le> x + 1/2"
  unfolding js_round_def by linarith

lemma js_round_mono: "x \<le> y \<Longrightarrow> js_round x \<le> js_round y"
  unfolding js_round_def by (simp add: floor_mono)

lemma js_round_le_iff: "js_round x \<le> k \<longleftrightarrow> x < real_of_int k + 1/2"
  unfolding js_round_def by linarith

lemma le_js_round_iff: "k \<le> js_round x \<longleftrightarrow> real_of_int k - 1/2 \<le> x"
  unfolding js_round_def by linarith

lemma days_between_lt_iff:
  "days_between a b < k \<longleftrightarrow> a - b \<le> (k - 1) * ms_per_day"
proof -
  have "days_between a b < k \<longleftrightarrow> real_of_int (a - b) / 86400000 \<le> real_of_int (k - 1)"
    unfolding days_between_def by (simp add: ceiling_less_iff)
  also have "\<dots> \<longleftrightarrow> real_of_int (a - b) \<le> real_of_int ((k - 1) * 86400000)"
    by (simp add: divide_le_eq)
  also have "\<dots> \<longleftrightarrow> a - b \<le> (k - 1) * ms_per_day"
    by (simp only: of_int_le_iff ms_per_day_val)
  finally show ?thesis .
qed

lemma days_between_exact:
  "0 \<le> r \<Longrightarrow> r < ms_per_day \<Longrightarrow> days_between (b + n * ms_per_day - r) b = n"
  unfolding days_between_def ceiling_eq_iff
  by (auto simp: field_simps)

declare days_between_def [eval_simps] js_round_def [eval_simps]

lemma nat_digits_nonempty [simp]: "nat_digits n \<noteq> []"
  by (subst nat_digits.simps) simp

end
