(* ===== verification/Types.thy ===== *)
theory Types
  imports Prelude
begin

text \<open>
  The data model of \<^verbatim>\<open>src/types.ts\<close>: the market record the provider builds and the
  scorer reads, the scoring result, the narrative result, the UI language, and the
  filter and sort options of \<^verbatim>\<open>src/App.tsx\<close>. The tier is an enumeration ordered from
  \<open>Avoid\<close> up to \<open>StrongBuy\<close> (an instance of \<open>linorder\<close>), so that "a higher score
  never gives a lower tier" can be stated with \<open>\<le>\<close>.
\<close>

datatype language = En | Ko

datatype tier = StrongBuy | Buy | Hold | Avoid

record market_data =
  market_id :: string
  name :: string
  protocol :: string
  symbol :: string
  expiry :: timestamp
  impliedAPY :: percent
  underlyingAPY :: percent
  historicalUnderlyingAPY :: "percent list"
  imageUrl :: string
  marketUrl :: string
  leverage :: real

record breakdown =
  spreadFactor :: real
  maturityFactor :: real
  trendFactor :: real

record scoring_result =
  score :: int
  tier :: tier
  color :: string
  breakdown :: breakdown
  analysis :: string

record analysis_result =
  description :: string
  aiVerdict :: string

datatype sort_option = ScoreDesc | ScoreAsc

datatype filter_option = FilterAll | FilterTier tier

text \<open>The string each tier carries in the source (the literal type of \<^verbatim>\<open>tier\<close>).\<close>

fun tier_name :: "tier \<Rightarrow> string" where
  "tier_name StrongBuy = ''Strong Buy''"
| "tier_name Buy = ''Buy''"
| "tier_name Hold = ''Hold''"
| "tier_name Avoid = ''Avoid''"

fun tier_rank :: "tier \<Rightarrow> nat" where
  "tier_rank Avoid = 0"
| "tier_rank Hold = 1"
| "tier_rank Buy = 2"
| "tier_rank StrongBuy = 3"

instantiation tier :: linorder
begin

definition less_eq_tier :: "tier \<Rightarrow> tier \<Rightarrow> bool" where
  "less_eq_tier t u \<longleftrightarrow> tier_rank t \<le> tier_rank u"

definition less_tier :: "tier \<Rightarrow> tier \<Rightarrow> bool" where
  "less_tier t u \<longleftrightarrow> tier_rank t < tier_rank u"

instance
proof
  fix x y z :: tier
  show "x < y \<longleftrightarrow> x \<le> y \<and> \<not> y \<le> x"
    by (auto simp: less_eq_tier_def less_tier_def)
  show "x \<le> x"
    by (simp add: less_eq_tier_def)
  show "x \<le> y \<Longrightarrow> y \<le> z \<Longrightarrow> x \<le> z"
    by (simp add: less_eq_tier_def)
  show "x \<le> y \<Longrightarrow> y \<le> x \<Longrightarrow> x = y"
    by (cases x; cases y) (simp_all add: less_eq_tier_def)
  show "x \<le> y \<or> y \<le> x"
    by (auto simp: less_eq_tier_def)
qed

end

lemma tier_name_inj: "tier_name t = tier_name u \<longleftrightarrow> t = u"
  by (cases t; cases u) simp_all

lemma tier_order_chain: "Avoid < Hold \<and> Hold < Buy \<and> Buy < StrongBuy"
  by (simp add: less_tier_def)

end
