(* ===== verification/Translations.thy ===== *)
theory Translations
  imports Types
begin

text \<open>
  The part of \<^verbatim>\<open>src/services/translations.ts\<close> that the core reads: the
  \<^verbatim>\<open>logic\<close> labels from which \<^verbatim>\<open>calculateInvestmentScore\<close> assembles its
  analysis string, and the displayed tier names. Korean text is written as the bytes of
  its UTF-8 encoding (\<^verbatim>\<open>CHR 0xEC\<close>, \<dots>), since an Isabelle \<^typ>\<open>char\<close> is a byte.
  The other strings of the file, which the page and the cards display, follow.
\<close>

record logic_labels =
  rising :: string
  falling :: string
  spreadIdeal :: string
  spread_label :: string
  trend_label :: string
  maturity_label :: string

definition logic_en :: logic_labels where
  "logic_en =
     \<lparr>rising = ''Rising (Strong Signal)'', falling = ''Falling'',
      spreadIdeal = ''(>3% Ideal)'', spread_label = ''Spread'',
      trend_label = ''Trend'', maturity_label = ''Maturity''\<rparr>"

definition logic_ko :: logic_labels where
  "logic_ko =
     \<lparr>rising = [CHR 0xEC, CHR 0x83, CHR 0x81, CHR 0xEC, CHR 0x8A, CHR 0xB9, CHR 0xEC, CHR 0x84, CHR 0xB8] @
       '' ('' @
       [CHR 0xEA, CHR 0xB0, CHR 0x95, CHR 0xEB, CHR 0xA0, CHR 0xA5] @
       '' '' @
       [CHR 0xEC, CHR 0x8B, CHR 0xA0, CHR 0xED, CHR 0x98, CHR 0xB8] @
       '')'',
      falling = [CHR 0xED, CHR 0x95, CHR 0x98, CHR 0xEB, CHR 0x9D, CHR 0xBD, CHR 0xEC, CHR 0x84, CHR 0xB8],
      spreadIdeal = ''(>3% '' @
       [CHR 0xEC, CHR 0x9D, CHR 0xB4, CHR 0xEC, CHR 0x83, CHR 0x81, CHR 0xEC, CHR 0xA0, CHR 0x81] @
       '')'',
      spread_label = [CHR 0xEC, CHR 0x8A, CHR 0xA4, CHR 0xED, CHR 0x94, CHR 0x84, CHR 0xEB, CHR 0xA0, CHR 0x88, CHR 0xEB, CHR 0x93, CHR 0x9C],
      trend_label = [CHR 0xEC, CHR 0xB6, CHR 0x94, CHR 0xEC, CHR 0x84, CHR 0xB8],
      maturity_label = [CHR 0xEB, CHR 0xA7, CHR 0x8C, CHR 0xEA, CHR 0xB8, CHR 0xB0]\<rparr>"

fun logic_translations :: "language \<Rightarrow> logic_labels" where
  "logic_translations En = logic_en"
| "logic_translations Ko = logic_ko"

fun tiers_ko :: "tier \<Rightarrow> string" where
  "tiers_ko StrongBuy = [CHR 0xEA, CHR 0xB0, CHR 0x95, CHR 0xEB, CHR 0xA0, CHR 0xA5] @
       '' '' @
       [CHR 0xEB, CHR 0xA7, CHR 0xA4, CHR 0xEC, CHR 0x88, CHR 0x98]"
| "tiers_ko Buy = [CHR 0xEB, CHR 0xA7, CHR 0xA4, CHR 0xEC, CHR 0x88, CHR 0x98]"
| "tiers_ko Hold = [CHR 0xEB, CHR 0xB3, CHR 0xB4, CHR 0xEC, CHR 0x9C, CHR 0xA0]"
| "tiers_ko Avoid = [CHR 0xEA, CHR 0xB4, CHR 0x80, CHR 0xEB, CHR 0xA7, CHR 0x9D]"

fun tier_display :: "language \<Rightarrow> tier \<Rightarrow> string" where
  "tier_display En t = tier_name t"
| "tier_display Ko t = tiers_ko t"

text \<open>The rest of the table, one record per language: the strings of the page
  (\<^verbatim>\<open>App.tsx\<close>) and of each card (\<^verbatim>\<open>card\<close>, read by
  \<^verbatim>\<open>MarketCard.tsx\<close>). Field names follow the source's keys; \<open>card_text\<close>,
  \<open>card_leverage\<close>, \<open>card_spread\<close> and \<open>card_analysis\<close> are renamed so as not
  to clash with HOL's \<open>card\<close> and the model's own selectors.\<close>

record tier_descs =
  strongBuy :: string
  buy :: string
  avoid :: string

record card_labels =
  card_leverage :: string
  daysLeft :: string
  implied :: string
  underlying :: string
  card_spread :: string
  trend7d :: string
  risingTrend :: string
  card_analysis :: string
  generating :: string
  trade :: string

record ui_strings =
  appTitle :: string
  officialApp :: string
  scoreCriteriaTitle :: string
  scoreCriteriaDesc :: string
  criteria :: "string list"
  tierDescs :: tier_descs
  activeOpp :: string
  filterAll :: string
  sortHigh :: string
  sortLow :: string
  noMarkets :: string
  clearFilters :: string
  disclaimer :: string
  card_text :: card_labels

definition ui_en :: ui_strings where
  "ui_en =
     \<lparr>appTitle = ''Pendle YT Analyzer'',
      officialApp = ''Official App'',
      scoreCriteriaTitle = ''Investment Score Criteria'',
      scoreCriteriaDesc = ''Scores are calculated based on the profitability of buying YT tokens at the current moment:'',
      criteria =
     [''Spread Check: Underlying APY > Implied APY? (+Score)'',
      ''Strong Candidate: Is the APY Spread > 3%? (Large Bonus)'',
      ''Trend Entry: Is 7-day Underlying APY Rising? (Immediate Entry Bonus)'',
      ''Maturity Safety: Is maturity < 30 days? (Avoid/Penalty)''],
      tierDescs = \<lparr>strongBuy = ''Spread > 3% & Rising Trend'',
                   buy = ''Positive Spread & Healthy Time'',
                   avoid = ''Negative Spread or <30 Days''\<rparr>,
      activeOpp = ''Active Opportunities'', filterAll = ''All'',
      sortHigh = ''Highest Score First'', sortLow = ''Lowest Score First'',
      noMarkets = ''No markets match the selected filter.'',
      clearFilters = ''Clear Filters'',
      disclaimer = ''Disclaimer: This tool is for informational purposes only and uses simulated data for demonstration. Trading Yield Tokens (YT) involves significant risk, including the potential loss of principal if underlying yield drops to zero.'',
      card_text = \<lparr>card_leverage = ''Leverage'', daysLeft = ''days left'',
                   implied = ''Implied APY (Cost)'',
                   underlying = ''Underlying APY (Earn)'',
                   card_spread = ''Projected Spread'',
                   trend7d = ''7-Day Underlying APY'',
                   risingTrend = ''Rising Trend '' @ [CHR 0xE2, CHR 0x86, CHR 0x97],
                   card_analysis = ''Analysis:'',
                   generating = ''Generating insights...'',
                   trade = ''Trade on Pendle''\<rparr>\<rparr>"

definition ui_ko :: ui_strings where
  "ui_ko =
     \<lparr>appTitle = ''Pendle YT '' @ [CHR 0xEB, CHR 0xB6, CHR 0x84, CHR 0xEC, CHR 0x84, CHR 0x9D, CHR 0xEA, CHR 0xB8, CHR 0xB0],
      officialApp = [CHR 0xEA, CHR 0xB3, CHR 0xB5, CHR 0xEC, CHR 0x8B, CHR 0x9D, CHR 0x20, CHR 0xEC, CHR 0x95, CHR 0xB1],
      scoreCriteriaTitle = [CHR 0xED, CHR 0x88, CHR 0xAC, CHR 0xEC, CHR 0x9E, CHR 0x90, CHR 0x20, CHR 0xEC, CHR 0xA0, CHR 0x90,
        CHR 0xEC, CHR 0x88, CHR 0x98, CHR 0x20, CHR 0xEA, CHR 0xB8, CHR 0xB0, CHR 0xEC, CHR 0xA4, CHR 0x80],
      scoreCriteriaDesc = [CHR 0xEC, CHR 0xA0, CHR 0x90, CHR 0xEC, CHR 0x88, CHR 0x98, CHR 0xEB, CHR 0x8A, CHR 0x94, CHR 0x20,
        CHR 0xED, CHR 0x98, CHR 0x84, CHR 0xEC, CHR 0x9E, CHR 0xAC, CHR 0x20, CHR 0xEC, CHR 0x8B, CHR 0x9C,
        CHR 0xEC, CHR 0xA0, CHR 0x90, CHR 0xEC, CHR 0x97, CHR 0x90, CHR 0xEC, CHR 0x84, CHR 0x9C] @ '' YT '' @ [CHR 0xED, CHR 0x86, CHR 0xA0, CHR 0xED, CHR 0x81, CHR 0xB0, CHR 0xEC, CHR 0x9D, CHR 0x84, CHR 0x20,
        CHR 0xEB, CHR 0xA7, CHR 0xA4, CHR 0xEC, CHR 0x88, CHR 0x98, CHR 0xED, CHR 0x96, CHR 0x88, CHR 0xEC,
        CHR 0x9D, CHR 0x84, CHR 0x20, CHR 0xEB, CHR 0x95, CHR 0x8C, CHR 0xEC, CHR 0x9D, CHR 0x98, CHR 0x20,
        CHR 0xEC, CHR 0x98, CHR 0x88, CHR 0xEC, CHR 0x83, CHR 0x81, CHR 0x20, CHR 0xEC, CHR 0x88, CHR 0x98,
        CHR 0xEC, CHR 0x9D, CHR 0xB5, CHR 0xEC, CHR 0x84, CHR 0xB1, CHR 0xEC, CHR 0x9D, CHR 0x84, CHR 0x20,
        CHR 0xEA, CHR 0xB8, CHR 0xB0, CHR 0xEB, CHR 0xB0, CHR 0x98, CHR 0xEC, CHR 0x9C, CHR 0xBC, CHR 0xEB,
        CHR 0xA1, CHR 0x9C, CHR 0x20, CHR 0xEA, CHR 0xB3, CHR 0x84, CHR 0xEC, CHR 0x82, CHR 0xB0, CHR 0xEB,
        CHR 0x90, CHR 0xA9, CHR 0xEB, CHR 0x8B, CHR 0x88, CHR 0xEB, CHR 0x8B, CHR 0xA4, CHR 0x3A],
      criteria =
     [[CHR 0xEC, CHR 0x8A, CHR 0xA4, CHR 0xED, CHR 0x94, CHR 0x84, CHR 0xEB, CHR 0xA0, CHR 0x88, CHR 0xEB,
        CHR 0x93, CHR 0x9C, CHR 0x20, CHR 0xED, CHR 0x99, CHR 0x95, CHR 0xEC, CHR 0x9D, CHR 0xB8, CHR 0x3A,
        CHR 0x20, CHR 0xEA, CHR 0xB8, CHR 0xB0, CHR 0xEC, CHR 0xB4, CHR 0x88] @ '' APY > '' @ [CHR 0xEB, CHR 0x82, CHR 0xB4, CHR 0xEC, CHR 0x9E, CHR 0xAC] @ '' APY? (+'' @ [CHR 0xEC, CHR 0xA0, CHR 0x90, CHR 0xEC, CHR 0x88, CHR 0x98, CHR 0x29],
      [CHR 0xEA, CHR 0xB0, CHR 0x95, CHR 0xEB, CHR 0xA0, CHR 0xA5, CHR 0x20, CHR 0xED, CHR 0x9B, CHR 0x84,
        CHR 0xEB, CHR 0xB3, CHR 0xB4] @ '': APY '' @ [CHR 0xEC, CHR 0xB0, CHR 0xA8, CHR 0xEC, CHR 0x9D, CHR 0xB4, CHR 0xEA, CHR 0xB0, CHR 0x80] @ '' 3% '' @ [CHR 0xEC, CHR 0x9D, CHR 0xB4, CHR 0xEC, CHR 0x83, CHR 0x81, CHR 0xEC, CHR 0x9D, CHR 0xB8, CHR 0xEA,
        CHR 0xB0, CHR 0x80] @ ''? ('' @ [CHR 0xED, CHR 0x81, CHR 0xB0, CHR 0x20, CHR 0xEB, CHR 0xB3, CHR 0xB4, CHR 0xEB, CHR 0x84, CHR 0x88,
        CHR 0xEC, CHR 0x8A, CHR 0xA4, CHR 0x29],
      [CHR 0xEC, CHR 0xA7, CHR 0x84, CHR 0xEC, CHR 0x9E, CHR 0x85, CHR 0x20, CHR 0xEC, CHR 0xB6, CHR 0x94,
        CHR 0xEC, CHR 0x84, CHR 0xB8, CHR 0x3A, CHR 0x20, CHR 0xEC, CHR 0xB5, CHR 0x9C, CHR 0xEA, CHR 0xB7,
        CHR 0xBC] @ '' 7'' @ [CHR 0xEC, CHR 0x9D, CHR 0xBC, CHR 0x20, CHR 0xEA, CHR 0xB8, CHR 0xB0, CHR 0xEC, CHR 0xB4, CHR 0x88] @ '' APY'' @ [CHR 0xEA, CHR 0xB0, CHR 0x80, CHR 0x20, CHR 0xEC, CHR 0x83, CHR 0x81, CHR 0xEC, CHR 0x8A, CHR 0xB9,
        CHR 0xEC, CHR 0x84, CHR 0xB8, CHR 0xEC, CHR 0x9D, CHR 0xB8, CHR 0xEA, CHR 0xB0, CHR 0x80] @ ''? ('' @ [CHR 0xEC, CHR 0xA6, CHR 0x89, CHR 0xEC, CHR 0x8B, CHR 0x9C, CHR 0x20, CHR 0xEC, CHR 0xA7, CHR 0x84,
        CHR 0xEC, CHR 0x9E, CHR 0x85, CHR 0x20, CHR 0xEB, CHR 0xB3, CHR 0xB4, CHR 0xEB, CHR 0x84, CHR 0x88,
        CHR 0xEC, CHR 0x8A, CHR 0xA4, CHR 0x29],
      [CHR 0xEB, CHR 0xA7, CHR 0x8C, CHR 0xEA, CHR 0xB8, CHR 0xB0, CHR 0x20, CHR 0xEC, CHR 0x95, CHR 0x88,
        CHR 0xEC, CHR 0xA0, CHR 0x84, CHR 0xEC, CHR 0x84, CHR 0xB1, CHR 0x3A, CHR 0x20, CHR 0xEB, CHR 0xA7,
        CHR 0x8C, CHR 0xEA, CHR 0xB8, CHR 0xB0, CHR 0xEA, CHR 0xB0, CHR 0x80] @ '' 30'' @ [CHR 0xEC, CHR 0x9D, CHR 0xBC, CHR 0x20, CHR 0xEB, CHR 0xAF, CHR 0xB8, CHR 0xEB, CHR 0xA7, CHR 0x8C,
        CHR 0xEC, CHR 0x9D, CHR 0xB8, CHR 0xEA, CHR 0xB0, CHR 0x80] @ ''? ('' @ [CHR 0xED, CHR 0x9A, CHR 0x8C, CHR 0xED, CHR 0x94, CHR 0xBC, CHR 0x2F, CHR 0xED, CHR 0x8C, CHR 0xA8,
        CHR 0xEB, CHR 0x84, CHR 0x90, CHR 0xED, CHR 0x8B, CHR 0xB0, CHR 0x29]],
      tierDescs = \<lparr>strongBuy = [CHR 0xEC, CHR 0x8A, CHR 0xA4, CHR 0xED, CHR 0x94, CHR 0x84, CHR 0xEB, CHR 0xA0, CHR 0x88, CHR 0xEB,
        CHR 0x93, CHR 0x9C] @ '' > 3% & '' @ [CHR 0xEC, CHR 0x83, CHR 0x81, CHR 0xEC, CHR 0x8A, CHR 0xB9, CHR 0x20, CHR 0xEC, CHR 0xB6, CHR 0x94,
        CHR 0xEC, CHR 0x84, CHR 0xB8],
                   buy = [CHR 0xEC, CHR 0x96, CHR 0x91, CHR 0xEC, CHR 0x9D, CHR 0x98, CHR 0x20, CHR 0xEC, CHR 0x8A, CHR 0xA4,
        CHR 0xED, CHR 0x94, CHR 0x84, CHR 0xEB, CHR 0xA0, CHR 0x88, CHR 0xEB, CHR 0x93, CHR 0x9C] @ '' & '' @ [CHR 0xEC, CHR 0xB6, CHR 0xA9, CHR 0xEB, CHR 0xB6, CHR 0x84, CHR 0xED, CHR 0x95, CHR 0x9C, CHR 0x20,
        CHR 0xEA, CHR 0xB8, CHR 0xB0, CHR 0xEA, CHR 0xB0, CHR 0x84],
                   avoid = [CHR 0xEC, CHR 0x9D, CHR 0x8C, CHR 0xEC, CHR 0x9D, CHR 0x98, CHR 0x20, CHR 0xEC, CHR 0x8A, CHR 0xA4,
        CHR 0xED, CHR 0x94, CHR 0x84, CHR 0xEB, CHR 0xA0, CHR 0x88, CHR 0xEB, CHR 0x93, CHR 0x9C, CHR 0x20,
        CHR 0xEB, CHR 0x98, CHR 0x90, CHR 0xEB, CHR 0x8A, CHR 0x94] @ '' 30'' @ [CHR 0xEC, CHR 0x9D, CHR 0xBC, CHR 0x20, CHR 0xEB, CHR 0xAF, CHR 0xB8, CHR 0xEB, CHR 0xA7, CHR 0x8C]\<rparr>,
      activeOpp = [CHR 0xED, CHR 0x99, CHR 0x9C, CHR 0xEC, CHR 0x84, CHR 0xB1, CHR 0x20, CHR 0xEA, CHR 0xB8, CHR 0xB0,
        CHR 0xED, CHR 0x9A, CHR 0x8C], filterAll = [CHR 0xEC, CHR 0xA0, CHR 0x84, CHR 0xEC, CHR 0xB2, CHR 0xB4],
      sortHigh = [CHR 0xEB, CHR 0x86, CHR 0x92, CHR 0xEC, CHR 0x9D, CHR 0x80, CHR 0x20, CHR 0xEC, CHR 0xA0, CHR 0x90,
        CHR 0xEC, CHR 0x88, CHR 0x98, CHR 0xEC, CHR 0x88, CHR 0x9C], sortLow = [CHR 0xEB, CHR 0x82, CHR 0xAE, CHR 0xEC, CHR 0x9D, CHR 0x80, CHR 0x20, CHR 0xEC, CHR 0xA0, CHR 0x90,
        CHR 0xEC, CHR 0x88, CHR 0x98, CHR 0xEC, CHR 0x88, CHR 0x9C],
      noMarkets = [CHR 0xEC, CHR 0x84, CHR 0xA0, CHR 0xED, CHR 0x83, CHR 0x9D, CHR 0xED, CHR 0x95, CHR 0x9C, CHR 0x20,
        CHR 0xED, CHR 0x95, CHR 0x84, CHR 0xED, CHR 0x84, CHR 0xB0, CHR 0xEC, CHR 0x99, CHR 0x80, CHR 0x20,
        CHR 0xEC, CHR 0x9D, CHR 0xBC, CHR 0xEC, CHR 0xB9, CHR 0x98, CHR 0xED, CHR 0x95, CHR 0x98, CHR 0xEB,
        CHR 0x8A, CHR 0x94, CHR 0x20, CHR 0xEC, CHR 0x83, CHR 0x81, CHR 0xED, CHR 0x92, CHR 0x88, CHR 0xEC,
        CHR 0x9D, CHR 0xB4, CHR 0x20, CHR 0xEC, CHR 0x97, CHR 0x86, CHR 0xEC, CHR 0x8A, CHR 0xB5, CHR 0xEB,
        CHR 0x8B, CHR 0x88, CHR 0xEB, CHR 0x8B, CHR 0xA4, CHR 0x2E],
      clearFilters = [CHR 0xED, CHR 0x95, CHR 0x84, CHR 0xED, CHR 0x84, CHR 0xB0, CHR 0x20, CHR 0xEC, CHR 0xB4, CHR 0x88,
        CHR 0xEA, CHR 0xB8, CHR 0xB0, CHR 0xED, CHR 0x99, CHR 0x94],
      disclaimer = [CHR 0xEB, CHR 0xA9, CHR 0xB4, CHR 0xEC, CHR 0xB1, CHR 0x85, CHR 0x20, CHR 0xEC, CHR 0xA1, CHR 0xB0,
        CHR 0xED, CHR 0x95, CHR 0xAD, CHR 0x3A, CHR 0x20, CHR 0xEC, CHR 0x9D, CHR 0xB4, CHR 0x20, CHR 0xEB,
        CHR 0x8F, CHR 0x84, CHR 0xEA, CHR 0xB5, CHR 0xAC, CHR 0xEB, CHR 0x8A, CHR 0x94, CHR 0x20, CHR 0xEC,
        CHR 0xA0, CHR 0x95, CHR 0xEB, CHR 0xB3, CHR 0xB4, CHR 0x20, CHR 0xEC, CHR 0xA0, CHR 0x9C, CHR 0xEA,
        CHR 0xB3, CHR 0xB5, CHR 0x20, CHR 0xEB, CHR 0xAA, CHR 0xA9, CHR 0xEC, CHR 0xA0, CHR 0x81, CHR 0xEC,
        CHR 0x9C, CHR 0xBC, CHR 0xEB, CHR 0xA1, CHR 0x9C, CHR 0xEB, CHR 0xA7, CHR 0x8C, CHR 0x20, CHR 0xEC,
        CHR 0x82, CHR 0xAC, CHR 0xEC, CHR 0x9A, CHR 0xA9, CHR 0xEB, CHR 0x90, CHR 0x98, CHR 0xEB, CHR 0xA9,
        CHR 0xB0, CHR 0x20, CHR 0xEB, CHR 0x8D, CHR 0xB0, CHR 0xEB, CHR 0xAA, CHR 0xA8, CHR 0xEC, CHR 0x9A,
        CHR 0xA9, CHR 0x20, CHR 0xEC, CHR 0x8B, CHR 0x9C, CHR 0xEB, CHR 0xAE, CHR 0xAC, CHR 0xEB, CHR 0xA0,
        CHR 0x88, CHR 0xEC, CHR 0x9D, CHR 0xB4, CHR 0xEC, CHR 0x85, CHR 0x98, CHR 0x20, CHR 0xEB, CHR 0x8D,
        CHR 0xB0, CHR 0xEC, CHR 0x9D, CHR 0xB4, CHR 0xED, CHR 0x84, CHR 0xB0, CHR 0xEB, CHR 0xA5, CHR 0xBC,
        CHR 0x20, CHR 0xEC, CHR 0x82, CHR 0xAC, CHR 0xEC, CHR 0x9A, CHR 0xA9, CHR 0xED, CHR 0x95, CHR 0xA9,
        CHR 0xEB, CHR 0x8B, CHR 0x88, CHR 0xEB, CHR 0x8B, CHR 0xA4] @ ''. YT(Yield Token) '' @ [CHR 0xEA, CHR 0xB1, CHR 0xB0, CHR 0xEB, CHR 0x9E, CHR 0x98, CHR 0xEB, CHR 0x8A, CHR 0x94, CHR 0x20,
        CHR 0xEA, CHR 0xB8, CHR 0xB0, CHR 0xEC, CHR 0xB4, CHR 0x88, CHR 0x20, CHR 0xEC, CHR 0x88, CHR 0x98,
        CHR 0xEC, CHR 0x9D, CHR 0xB5, CHR 0xEB, CHR 0xA5, CHR 0xA0, CHR 0xEC, CHR 0x9D, CHR 0xB4] @ '' 0'' @ [CHR 0xEC, CHR 0x9C, CHR 0xBC, CHR 0xEB, CHR 0xA1, CHR 0x9C, CHR 0x20, CHR 0xEB, CHR 0x96, CHR 0xA8,
        CHR 0xEC, CHR 0x96, CHR 0xB4, CHR 0xEC, CHR 0xA7, CHR 0x88, CHR 0x20, CHR 0xEA, CHR 0xB2, CHR 0xBD,
        CHR 0xEC, CHR 0x9A, CHR 0xB0, CHR 0x20, CHR 0xEC, CHR 0x9B, CHR 0x90, CHR 0xEA, CHR 0xB8, CHR 0x88,
        CHR 0x20, CHR 0xEC, CHR 0x86, CHR 0x90, CHR 0xEC, CHR 0x8B, CHR 0xA4, CHR 0xEC, CHR 0x9D, CHR 0x84,
        CHR 0x20, CHR 0xED, CHR 0x8F, CHR 0xAC, CHR 0xED, CHR 0x95, CHR 0xA8, CHR 0xED, CHR 0x95, CHR 0x9C,
        CHR 0x20, CHR 0xEC, CHR 0x83, CHR 0x81, CHR 0xEB, CHR 0x8B, CHR 0xB9, CHR 0xED, CHR 0x95, CHR 0x9C,
        CHR 0x20, CHR 0xEC, CHR 0x9C, CHR 0x84, CHR 0xED, CHR 0x97, CHR 0x98, CHR 0xEC, CHR 0x9D, CHR 0x84,
        CHR 0x20, CHR 0xEC, CHR 0x88, CHR 0x98, CHR 0xEB, CHR 0xB0, CHR 0x98, CHR 0xED, CHR 0x95, CHR 0xA9,
        CHR 0xEB, CHR 0x8B, CHR 0x88, CHR 0xEB, CHR 0x8B, CHR 0xA4, CHR 0x2E],
      card_text = \<lparr>card_leverage = [CHR 0xEB, CHR 0xA0, CHR 0x88, CHR 0xEB, CHR 0xB2, CHR 0x84, CHR 0xEB, CHR 0xA6, CHR 0xAC, CHR 0xEC,
        CHR 0xA7, CHR 0x80], daysLeft = [CHR 0xEC, CHR 0x9D, CHR 0xBC, CHR 0x20, CHR 0xEB, CHR 0x82, CHR 0xA8, CHR 0xEC, CHR 0x9D, CHR 0x8C],
                   implied = [CHR 0xEB, CHR 0x82, CHR 0xB4, CHR 0xEC, CHR 0x9E, CHR 0xAC] @ '' APY ('' @ [CHR 0xEB, CHR 0xB9, CHR 0x84, CHR 0xEC, CHR 0x9A, CHR 0xA9, CHR 0x29],
                   underlying = [CHR 0xEA, CHR 0xB8, CHR 0xB0, CHR 0xEC, CHR 0xB4, CHR 0x88] @ '' APY ('' @ [CHR 0xEC, CHR 0x88, CHR 0x98, CHR 0xEC, CHR 0x9D, CHR 0xB5, CHR 0x29],
                   card_spread = [CHR 0xEC, CHR 0x98, CHR 0x88, CHR 0xEC, CHR 0x83, CHR 0x81, CHR 0x20, CHR 0xEC, CHR 0x8A, CHR 0xA4,
        CHR 0xED, CHR 0x94, CHR 0x84, CHR 0xEB, CHR 0xA0, CHR 0x88, CHR 0xEB, CHR 0x93, CHR 0x9C],
                   trend7d = ''7'' @ [CHR 0xEC, CHR 0x9D, CHR 0xBC, CHR 0x20, CHR 0xEA, CHR 0xB8, CHR 0xB0, CHR 0xEC, CHR 0xB4, CHR 0x88] @ '' APY'',
                   risingTrend = [CHR 0xEC, CHR 0x83, CHR 0x81, CHR 0xEC, CHR 0x8A, CHR 0xB9, CHR 0x20, CHR 0xEC, CHR 0xB6, CHR 0x94,
        CHR 0xEC, CHR 0x84, CHR 0xB8, CHR 0x20, CHR 0xE2, CHR 0x86, CHR 0x97],
                   card_analysis = [CHR 0xEB, CHR 0xB6, CHR 0x84, CHR 0xEC, CHR 0x84, CHR 0x9D, CHR 0x3A],
                   generating = [CHR 0xEC, CHR 0x9D, CHR 0xB8, CHR 0xEC, CHR 0x82, CHR 0xAC, CHR 0xEC, CHR 0x9D, CHR 0xB4, CHR 0xED,
        CHR 0x8A, CHR 0xB8, CHR 0x20, CHR 0xEC, CHR 0x83, CHR 0x9D, CHR 0xEC, CHR 0x84, CHR 0xB1, CHR 0x20,
        CHR 0xEC, CHR 0xA4, CHR 0x91] @ ''...'',
                   trade = ''Pendle'' @ [CHR 0xEC, CHR 0x97, CHR 0x90, CHR 0xEC, CHR 0x84, CHR 0x9C, CHR 0x20, CHR 0xEA, CHR 0xB1, CHR 0xB0,
        CHR 0xEB, CHR 0x9E, CHR 0x98, CHR 0xED, CHR 0x95, CHR 0x98, CHR 0xEA, CHR 0xB8, CHR 0xB0]\<rparr>\<rparr>"


fun ui_translations :: "language \<Rightarrow> ui_strings" where
  "ui_translations En = ui_en"
| "ui_translations Ko = ui_ko"

lemma rising_ne_falling: "rising (logic_translations l) \<noteq> falling (logic_translations l)"
  by (cases l) (simp_all add: logic_en_def logic_ko_def)

lemma spreadIdeal_nonempty: "spreadIdeal (logic_translations l) \<noteq> []"
  by (cases l) (simp_all add: logic_en_def logic_ko_def)

lemma tier_display_inj: "tier_display l t = tier_display l u \<longleftrightarrow> t = u"
  by (cases l; cases t; cases u) simp_all

end
