(* ===== verification/Scoring.thy ===== *)
theory Scoring
  imports Translations
begin

text \<open>
  The scoring engine, \<^verbatim>\<open>calculateInvestmentScore\<close> of
  \<^verbatim>\<open>src/services/scoringLogic.ts\<close>. The source keeps a running \<^verbatim>\<open>score\<close>, a
  \<^verbatim>\<open>breakdown\<close> object and an \<^verbatim>\<open>isRising\<close> flag and updates them block by
  block; the model keeps the same three variables in the record \<open>score_acc\<close> and has
  one function per block (spread, trend, maturity), composed in the source's order.
  Every update adds the same amount to the score and to one breakdown field, as the
  source's paired statements do (\<open>add_spread\<close>, \<open>add_trend\<close>, \<open>add_maturity\<close>).
  The single \<^verbatim>\<open>new Date()\<close> of a call is the parameter \<open>now\<close>.

  After the definitions come an abstract specification of the score (the formula of the
  spec's section 4.1, contribution by contribution) and the lemmas: the accumulator
  invariant, refinement of the specification, bounds, the tier table, monotonicity in
  the spread, independence of the language, and the maturity boundary.
\<close>

record score_acc =
  acc_score :: real
  acc_breakdown :: breakdown
  acc_rising :: bool

definition init_acc :: score_acc where
  "init_acc = \<lparr>acc_score = 50,
               acc_breakdown = \<lparr>spreadFactor = 0, maturityFactor = 0, trendFactor = 0\<rparr>,
               acc_rising = False\<rparr>"

definition add_spread :: "real \<Rightarrow> score_acc \<Rightarrow> score_acc" where
  "add_spread x a = a\<lparr>acc_score := acc_score a + x,
     acc_breakdown := (acc_breakdown a)\<lparr>spreadFactor := spreadFactor (acc_breakdown a) + x\<rparr>\<rparr>"

definition add_trend :: "real \<Rightarrow> score_acc \<Rightarrow> score_acc" where
  "add_trend x a = a\<lparr>acc_score := acc_score a + x,
     acc_breakdown := (acc_breakdown a)\<lparr>trendFactor := trendFactor (acc_breakdown a) + x\<rparr>\<rparr>"

definition add_maturity :: "real \<Rightarrow> score_acc \<Rightarrow> score_acc" where
  "add_maturity x a = a\<lparr>acc_score := acc_score a + x,
     acc_breakdown := (acc_breakdown a)\<lparr>maturityFactor := maturityFactor (acc_breakdown a) + x\<rparr>\<rparr>"

text \<open>1. APY spread logic.\<close>

definition spread_step :: "percent \<Rightarrow> score_acc \<Rightarrow> score_acc" where
  "spread_step apyDiff a =
     (if apyDiff > 0 then
        (let a1 = add_spread (min (apyDiff * 4) 30) a
         in if apyDiff \<ge> 3 then add_spread 20 a1 else a1)
      else add_spread (max (apyDiff * 4) (-40)) a)"

text \<open>2. Trend logic: first against last element, only for two or more points.\<close>

definition trend_step :: "percent list \<Rightarrow> score_acc \<Rightarrow> score_acc" where
  "trend_step history a =
     (if length history \<ge> 2 then
        (let start = history ! 0; stop = history ! (length history - 1)
         in if stop > start then (add_trend 20 a)\<lparr>acc_rising := True\<rparr>
            else if stop < start then add_trend (-10) a
            else a)
      else a)"

text \<open>3. Maturity logic.\<close>

definition maturity_step :: "int \<Rightarrow> score_acc \<Rightarrow> score_acc" where
  "maturity_step daysToMaturity a =
     (if daysToMaturity < 30 then add_maturity (-35) a else add_maturity 5 a)"

text \<open>\<^verbatim>\<open>score = Math.max(0, Math.min(100, Math.round(score)))\<close>.\<close>

definition clamp_score :: "real \<Rightarrow> int" where
  "clamp_score s = max 0 (min 100 (js_round s))"

text \<open>Tier and colour, one \<^verbatim>\<open>if\<close>/\<^verbatim>\<open>else if\<close> chain from the top tier down.\<close>

definition classify :: "int \<Rightarrow> tier \<times> string" where
  "classify s =
     (if s \<ge> 80 then (StrongBuy, ''text-emerald-400 border-emerald-400 bg-emerald-400/10'')
      else if s \<ge> 60 then (Buy, ''text-blue-400 border-blue-400 bg-blue-400/10'')
      else if s \<ge> 40 then (Hold, ''text-yellow-400 border-yellow-400 bg-yellow-400/10'')
      else (Avoid, ''text-red-500 border-red-500 bg-red-500/10''))"

text \<open>The analysis template literal.\<close>

definition analysis_text :: "logic_labels \<Rightarrow> percent \<Rightarrow> bool \<Rightarrow> int \<Rightarrow> string" where
  "analysis_text t apyDiff isRising daysToMaturity =
     (let trendStr = (if isRising then rising t else falling t);
          spreadNote = (if apyDiff \<ge> 3 then spreadIdeal t else '''')
      in spread_label t @ '': '' @ to_fixed2 apyDiff @ ''% '' @ spreadNote @ ''. '' @
         trend_label t @ '': '' @ trendStr @ ''. '' @
         maturity_label t @ '': '' @ js_int_string daysToMaturity @ ''d.'')"

definition calculateInvestmentScore :: "market_data \<Rightarrow> timestamp \<Rightarrow> language \<Rightarrow> scoring_result" where
  "calculateInvestmentScore market now language =
     (let daysToMaturity = days_between (expiry market) now;
          apyDiff = underlyingAPY market - impliedAPY market;
          a = maturity_step daysToMaturity
                (trend_step (historicalUnderlyingAPY market) (spread_step apyDiff init_acc));
          s = clamp_score (acc_score a)
      in \<lparr>score = s, tier = fst (classify s), color = snd (classify s),
          breakdown = acc_breakdown a,
          analysis = analysis_text (logic_translations language) apyDiff (acc_rising a) daysToMaturity\<rparr>)"

subsection \<open>Abstract specification of the score\<close>

text \<open>
  The spec states the score as a sum of three contributions over a base of 50, clamped
  to \<open>[0, 100]\<close> and then rounded. The source rounds first and clamps after; the
  refinement lemma below shows the two orders agree.
\<close>

definition spread_contribution :: "percent \<Rightarrow> real" where
  "spread_contribution d =
     (if 0 < d then min (d * 4) 30 + (if 3 \<le> d then 20 else 0) else max (d * 4) (-40))"

definition trend_rises :: "percent list \<Rightarrow> bool" where
  "trend_rises h \<longleftrightarrow> 2 \<le> length h \<and> hd h < last h"

definition trend_contribution :: "percent list \<Rightarrow> real" where
  "trend_contribution h =
     (if 2 \<le> length h then (if hd h < last h then 20 else if last h < hd h then -10 else 0)
      else 0)"

definition maturity_contribution :: "int \<Rightarrow> real" where
  "maturity_contribution d = (if d < 30 then -35 else 5)"

definition spec_raw_score :: "market_data \<Rightarrow> timestamp \<Rightarrow> real" where
  "spec_raw_score m now =
     50 + spread_contribution (underlyingAPY m - impliedAPY m)
        + trend_contribution (historicalUnderlyingAPY m)
        + maturity_contribution (days_between (expiry m) now)"

definition spec_score :: "market_data \<Rightarrow> timestamp \<Rightarrow> int" where
  "spec_score m now = js_round (max 0 (min 100 (spec_raw_score m now)))"

definition spec_tier :: "int \<Rightarrow> tier" where
  "spec_tier s =
     (if 80 \<le> s \<and> s \<le> 100 then StrongBuy
      else if 60 \<le> s \<and> s \<le> 79 then Buy
      else if 40 \<le> s \<and> s \<le> 59 then Hold
      else Avoid)"

text \<open>
  The invariant of the accumulator: the running score is the base plus the three
  breakdown fields, which is what makes the breakdown an explanation of the score.
\<close>

definition acc_consistent :: "score_acc \<Rightarrow> bool" where
  "acc_consistent a \<longleftrightarrow>
     acc_score a = 50 + spreadFactor (acc_breakdown a) + maturityFactor (acc_breakdown a)
                      + trendFactor (acc_breakdown a)"

declare spec_raw_score_def [eval_simps] spread_contribution_def [eval_simps]
  trend_contribution_def [eval_simps] maturity_contribution_def [eval_simps]
  clamp_score_def [eval_simps] classify_def [eval_simps] spec_tier_def [eval_simps]
  trend_rises_def [eval_simps]

subsection \<open>Effect of each block on the accumulator\<close>

lemma add_spread_simps [simp]:
  "acc_score (add_spread x a) = acc_score a + x"
  "acc_breakdown (add_spread x a) =
     (acc_breakdown a)\<lparr>spreadFactor := spreadFactor (acc_breakdown a) + x\<rparr>"
  "acc_rising (add_spread x a) = acc_rising a"
  by (simp_all add: add_spread_def)

lemma add_trend_simps [simp]:
  "acc_score (add_trend x a) = acc_score a + x"
  "acc_breakdown (add_trend x a) =
     (acc_breakdown a)\<lparr>trendFactor := trendFactor (acc_breakdown a) + x\<rparr>"
  "acc_rising (add_trend x a) = acc_rising a"
  by (simp_all add: add_trend_def)

lemma add_maturity_simps [simp]:
  "acc_score (add_maturity x a) = acc_score a + x"
  "acc_breakdown (add_maturity x a) =
     (acc_breakdown a)\<lparr>maturityFactor := maturityFactor (acc_breakdown a) + x\<rparr>"
  "acc_rising (add_maturity x a) = acc_rising a"
  by (simp_all add: add_maturity_def)

lemma spread_step_effect [score_simps]:
  "acc_score (spread_step d a) = acc_score a + spread_contribution d"
  "acc_breakdown (spread_step d a) =
     (acc_breakdown a)\<lparr>spreadFactor := spreadFactor (acc_breakdown a) + spread_contribution d\<rparr>"
  "acc_rising (spread_step d a) = acc_rising a"
  by (simp_all add: spread_step_def spread_contribution_def Let_def)

lemma history_ends:
  "2 \<le> length h \<Longrightarrow> h ! 0 = hd h \<and> h ! (length h - Suc 0) = last h"
  by (cases h) (simp_all add: last_conv_nth)

lemma trend_step_effect [score_simps]:
  "acc_score (trend_step h a) = acc_score a + trend_contribution h"
  "acc_breakdown (trend_step h a) =
     (acc_breakdown a)\<lparr>trendFactor := trendFactor (acc_breakdown a) + trend_contribution h\<rparr>"
  "acc_rising (trend_step h a) = (acc_rising a \<or> trend_rises h)"
  by (auto simp: trend_step_def trend_contribution_def trend_rises_def Let_def history_ends)

lemma maturity_step_effect [score_simps]:
  "acc_score (maturity_step n a) = acc_score a + maturity_contribution n"
  "acc_breakdown (maturity_step n a) =
     (acc_breakdown a)\<lparr>maturityFactor := maturityFactor (acc_breakdown a) + maturity_contribution n\<rparr>"
  "acc_rising (maturity_step n a) = acc_rising a"
  by (simp_all add: maturity_step_def maturity_contribution_def)

lemma init_acc_simps [score_simps]:
  "acc_score init_acc = 50"
  "acc_breakdown init_acc = \<lparr>spreadFactor = 0, maturityFactor = 0, trendFactor = 0\<rparr>"
  "acc_rising init_acc = False"
  by (simp_all add: init_acc_def)

subsection \<open>The accumulator invariant\<close>

lemma acc_consistent_init: "acc_consistent init_acc"
  by (simp add: acc_consistent_def score_simps)

lemma spread_step_consistent: "acc_consistent a \<Longrightarrow> acc_consistent (spread_step d a)"
  by (simp add: acc_consistent_def score_simps)

lemma trend_step_consistent: "acc_consistent a \<Longrightarrow> acc_consistent (trend_step h a)"
  by (simp add: acc_consistent_def score_simps)

lemma maturity_step_consistent: "acc_consistent a \<Longrightarrow> acc_consistent (maturity_step n a)"
  by (simp add: acc_consistent_def score_simps)

lemmas step_consistent =
  acc_consistent_init spread_step_consistent trend_step_consistent maturity_step_consistent

subsection \<open>Rounding and clamping\<close>

lemma js_round_0 [simp]: "js_round 0 = 0"
  and js_round_100 [simp]: "js_round 100 = 100"
  by (simp_all add: js_round_def)

lemma clamp_round_commute: "max 0 (min 100 (js_round x)) = js_round (max 0 (min 100 x))"
  using js_round_mono [of x 0] js_round_mono [of 0 x] js_round_mono [of x 100]
    js_round_mono [of 100 x]
  by (auto simp: max_def min_def)

lemma clamp_score_bounds: "0 \<le> clamp_score x \<and> clamp_score x \<le> 100"
  by (simp add: clamp_score_def)

lemma clamp_score_mono: "x \<le> y \<Longrightarrow> clamp_score x \<le> clamp_score y"
  unfolding clamp_score_def using js_round_mono [of x y] by linarith

subsection \<open>The fields of the result\<close>

lemma calculateInvestmentScore_fields [score_simps]:
  "score (calculateInvestmentScore m now l) = clamp_score (spec_raw_score m now)"
  "tier (calculateInvestmentScore m now l) = fst (classify (clamp_score (spec_raw_score m now)))"
  "color (calculateInvestmentScore m now l) = snd (classify (clamp_score (spec_raw_score m now)))"
  "breakdown (calculateInvestmentScore m now l) =
     \<lparr>spreadFactor = spread_contribution (underlyingAPY m - impliedAPY m),
      maturityFactor = maturity_contribution (days_between (expiry m) now),
      trendFactor = trend_contribution (historicalUnderlyingAPY m)\<rparr>"
  "analysis (calculateInvestmentScore m now l) =
     analysis_text (logic_translations l) (underlyingAPY m - impliedAPY m)
       (trend_rises (historicalUnderlyingAPY m)) (days_between (expiry m) now)"
  by (simp_all add: calculateInvestmentScore_def Let_def score_simps spec_raw_score_def)

lemma spread_contribution_mono: "d \<le> d' \<Longrightarrow> spread_contribution d \<le> spread_contribution d'"
  unfolding spread_contribution_def by (simp add: min_def max_def)

lemma classify_tier: "0 \<le> s \<Longrightarrow> s \<le> 100 \<Longrightarrow> fst (classify s) = spec_tier s"
  by (simp add: classify_def spec_tier_def)

lemma maturity_contribution_cases: "maturity_contribution n = -35 \<longleftrightarrow> n < 30"
  by (simp add: maturity_contribution_def)

lemma analysis_text_trend_iff:
  "rising t \<noteq> falling t \<Longrightarrow> analysis_text t d b n = analysis_text t d True n \<longleftrightarrow> b"
  by (cases b) (simp_all add: analysis_text_def Let_def)

lemma trend_contribution_pos: "0 < trend_contribution h \<longleftrightarrow> trend_rises h"
  by (simp add: trend_contribution_def trend_rises_def)

subsection \<open>Properties of the scoring engine\<close>

text \<open>C1. The engine computes the score of the specification: the base of 50 plus the
  three contributions, clamped to \<open>[0, 100]\<close> and rounded. The source rounds before it
  clamps; the two orders agree.\<close>

theorem score_refines_spec:
  "score (calculateInvestmentScore m now l) = spec_score m now"
  by (simp add: score_simps clamp_score_def spec_score_def clamp_round_commute)

text \<open>C2. The breakdown records exactly the three contributions of the specification:
  the spread term (linear bonus capped at 30, plus 20 from a spread of 3 points, or a
  penalty floored at -40), the trend term (+20 rising, -10 falling, 0 otherwise or with
  fewer than two points) and the maturity term (-35 under 30 days, +5 otherwise).\<close>

theorem breakdown_refines_spec:
  "breakdown (calculateInvestmentScore m now l) =
     \<lparr>spreadFactor = spread_contribution (underlyingAPY m - impliedAPY m),
      maturityFactor = maturity_contribution (days_between (expiry m) now),
      trendFactor = trend_contribution (historicalUnderlyingAPY m)\<rparr>"
  by (simp add: score_simps)

text \<open>C3. Every score is an integer between 0 and 100.\<close>

theorem score_bounds:
  "0 \<le> score (calculateInvestmentScore m now l) \<and> score (calculateInvestmentScore m now l) \<le> 100"
  by (simp add: score_simps clamp_score_bounds)

text \<open>C4. The tier is the one of the spec's table for the final score:
  [80, 100] Strong Buy, [60, 79] Buy, [40, 59] Hold, [0, 39] Avoid.\<close>

theorem tier_follows_table:
  "tier (calculateInvestmentScore m now l) = spec_tier (score (calculateInvestmentScore m now l))"
  using clamp_score_bounds by (simp add: score_simps classify_tier)

text \<open>C5. The breakdown explains the score: base plus the three factors, rounded and
  clamped, is the score. The proof goes through the invariant \<open>acc_consistent\<close>
  of the running accumulator, which every block of the source keeps.\<close>

theorem breakdown_explains_score:
  "score (calculateInvestmentScore m now l) =
     clamp_score (50 + spreadFactor (breakdown (calculateInvestmentScore m now l))
                     + maturityFactor (breakdown (calculateInvestmentScore m now l))
                     + trendFactor (breakdown (calculateInvestmentScore m now l)))"
proof -
  let ?a = "maturity_step (days_between (expiry m) now)
              (trend_step (historicalUnderlyingAPY m)
                 (spread_step (underlyingAPY m - impliedAPY m) init_acc))"
  have "acc_consistent ?a"
    by (intro step_consistent)
  then show ?thesis
    by (simp add: calculateInvestmentScore_def Let_def acc_consistent_def)
qed

text \<open>C6. Monotonicity in the spread: with the same history and expiry, a larger
  underlying-minus-implied spread never gives a lower score.\<close>

theorem score_mono_spread:
  assumes "historicalUnderlyingAPY m' = historicalUnderlyingAPY m"
    and "expiry m' = expiry m"
    and "underlyingAPY m - impliedAPY m \<le> underlyingAPY m' - impliedAPY m'"
  shows "score (calculateInvestmentScore m now l) \<le> score (calculateInvestmentScore m' now l')"
proof -
  have "spec_raw_score m now \<le> spec_raw_score m' now"
    using assms spread_contribution_mono by (simp add: spec_raw_score_def)
  then show ?thesis
    by (simp add: score_simps clamp_score_mono)
qed

theorem score_mono_spread_witness:
  "let m = \<lparr>market_id = ''w'', name = ''w'', protocol = ''w'', symbol = ''w'', expiry = 0,
             impliedAPY = 5, underlyingAPY = 4, historicalUnderlyingAPY = [1, 2],
             imageUrl = '''', marketUrl = '''', leverage = 1\<rparr>;
       m' = m\<lparr>underlyingAPY := 9\<rparr>
   in historicalUnderlyingAPY m' = historicalUnderlyingAPY m \<and> expiry m' = expiry m \<and>
      underlyingAPY m - impliedAPY m \<le> underlyingAPY m' - impliedAPY m' \<and>
      score (calculateInvestmentScore m 0 En) \<le> score (calculateInvestmentScore m' 0 Ko)"
  unfolding Let_def by (intro conjI score_mono_spread) simp_all

text \<open>The tier is monotone in the score: a higher score never gives a lower tier.\<close>

lemma classify_mono:
  "s \<le> s' \<Longrightarrow> fst (classify s) \<le> fst (classify s')"
  by (simp add: classify_def less_eq_tier_def)

text \<open>C8. The maturity penalty applies exactly when the market expires at most 29 days
  (in milliseconds) after \<open>now\<close>, expired markets included; otherwise the bonus
  applies.\<close>

theorem maturity_penalty_iff:
  "maturityFactor (breakdown (calculateInvestmentScore m now l)) = -35 \<longleftrightarrow>
     expiry m - now \<le> 29 * ms_per_day"
  using days_between_lt_iff [of "expiry m" now 30]
  by (simp add: score_simps maturity_contribution_cases del: ms_per_day_val)

text \<open>C9. The analysis calls the trend rising exactly when the trend factor is positive
  (the condition the market card uses for its "rising" badge).\<close>

theorem trend_wording:
  "(analysis (calculateInvestmentScore m now l) =
      analysis_text (logic_translations l) (underlyingAPY m - impliedAPY m) True
        (days_between (expiry m) now))
   \<longleftrightarrow> 0 < trendFactor (breakdown (calculateInvestmentScore m now l))"
  by (simp add: score_simps analysis_text_trend_iff rising_ne_falling trend_contribution_pos)

text \<open>C10. The language changes only the analysis string: score, tier, colour and
  breakdown are the same in every language.\<close>

theorem language_independent:
  "score (calculateInvestmentScore m now l) = score (calculateInvestmentScore m now l') \<and>
   tier (calculateInvestmentScore m now l) = tier (calculateInvestmentScore m now l') \<and>
   color (calculateInvestmentScore m now l) = color (calculateInvestmentScore m now l') \<and>
   breakdown (calculateInvestmentScore m now l) = breakdown (calculateInvestmentScore m now l')"
  by (simp add: score_simps)

text \<open>C23. A flat history (at least two points, first equal to last) adds nothing to the
  score and is worded as falling, not rising: the asymmetry the spec asks to keep.\<close>

theorem flat_trend_neutral:
  assumes "2 \<le> length (historicalUnderlyingAPY m)"
    and "hd (historicalUnderlyingAPY m) = last (historicalUnderlyingAPY m)"
  shows "trendFactor (breakdown (calculateInvestmentScore m now l)) = 0 \<and>
         analysis (calculateInvestmentScore m now l) =
           analysis_text (logic_translations l) (underlyingAPY m - impliedAPY m) False
             (days_between (expiry m) now)"
  using assms by (simp add: score_simps trend_contribution_def trend_rises_def)

theorem flat_trend_neutral_witness:
  "let m = \<lparr>market_id = ''5'', name = ''p'', protocol = ''p'', symbol = ''p'', expiry = 0,
             impliedAPY = 10, underlyingAPY = 14.5, historicalUnderlyingAPY = [14.5, 13, 14.5],
             imageUrl = '''', marketUrl = '''', leverage = 1\<rparr>
   in 2 \<le> length (historicalUnderlyingAPY m) \<and>
      hd (historicalUnderlyingAPY m) = last (historicalUnderlyingAPY m) \<and>
      trendFactor (breakdown (calculateInvestmentScore m 0 Ko)) = 0 \<and>
      analysis (calculateInvestmentScore m 0 Ko) =
        analysis_text (logic_translations Ko) (underlyingAPY m - impliedAPY m) False
          (days_between (expiry m) 0)"
  unfolding Let_def using flat_trend_neutral [where now = 0 and l = Ko] by simp

end
