(* ===== verification/Processing.thy ===== *)
theory Processing
  imports Scoring
begin

text \<open>
  The collection processor: the \<^verbatim>\<open>useMemo\<close> body of \<^verbatim>\<open>App\<close> in
  \<^verbatim>\<open>src/App.tsx\<close>, which scores every market, keeps those of the selected tier and
  sorts them by score with a comparator. The scored item \<^verbatim>\<open>{...market, scoring}\<close>
  is the pair of the market and its scoring result. Each call of the scorer reads the
  clock itself, so the model takes a clock \<open>clock i\<close>, the time read by the call for the
  \<open>i\<close>-th market.

  \<^verbatim>\<open>Array.prototype.sort\<close> is stable since ECMAScript 2019, and for a consistent
  comparator a stable sort has exactly one result; the model of the builtin is the stable
  insertion sort \<open>js_sort\<close>, and the lemmas show that it is the library's
  \<open>sort_key\<close> (sorted, a permutation, stable), so that any other stable sort would give
  the same list.
\<close>

definition score_all ::
  "market_data list \<Rightarrow> (nat \<Rightarrow> timestamp) \<Rightarrow> language \<Rightarrow> (market_data \<times> scoring_result) list" where
  "score_all markets clock language =
     map (\<lambda>(i, market). (market, calculateInvestmentScore market (clock i) language))
       (enumerate 0 markets)"

definition keep_item :: "filter_option \<Rightarrow> market_data \<times> scoring_result \<Rightarrow> bool" where
  "keep_item filterTier item =
     (case filterTier of FilterAll \<Rightarrow> True | FilterTier t \<Rightarrow> tier (snd item) = t)"

definition compare_items ::
  "sort_option \<Rightarrow> market_data \<times> scoring_result \<Rightarrow> market_data \<times> scoring_result \<Rightarrow> int" where
  "compare_items sortOrder a b =
     (if sortOrder = ScoreDesc then score (snd b) - score (snd a)
      else score (snd a) - score (snd b))"

text \<open>
  The builtin sort with a comparator: each element is inserted after every element it
  does not compare below, so that equal elements keep their input order.
\<close>

fun insert_by :: "('a \<Rightarrow> 'a \<Rightarrow> int) \<Rightarrow> 'a \<Rightarrow> 'a list \<Rightarrow> 'a list" where
  "insert_by cmp x [] = [x]"
| "insert_by cmp x (y # ys) = (if cmp x y < 0 then x # y # ys else y # insert_by cmp x ys)"

definition js_sort :: "('a \<Rightarrow> 'a \<Rightarrow> int) \<Rightarrow> 'a list \<Rightarrow> 'a list" where
  "js_sort cmp xs = foldl (\<lambda>acc x. insert_by cmp x acc) [] xs"

definition processMarkets ::
  "market_data list \<Rightarrow> (nat \<Rightarrow> timestamp) \<Rightarrow> filter_option \<Rightarrow> sort_option \<Rightarrow> language
   \<Rightarrow> (market_data \<times> scoring_result) list" where
  "processMarkets markets clock filterTier sortOrder language =
     (let scored = score_all markets clock language;
          filtered = filter (keep_item filterTier) scored
      in js_sort (compare_items sortOrder) filtered)"

text \<open>The sort key that the comparator of each order compares by.\<close>

definition sort_key_of :: "sort_option \<Rightarrow> market_data \<times> scoring_result \<Rightarrow> int" where
  "sort_key_of sortOrder item =
     (if sortOrder = ScoreDesc then - score (snd item) else score (snd item))"

subsection \<open>The builtin sort is the stable sort by key\<close>

lemma mset_insert_by [simp]: "mset (insert_by cmp x ys) = add_mset x (mset ys)"
  by (induction ys) auto

lemma set_insert_by [simp]: "set (insert_by cmp x ys) = insert x (set ys)"
  by (induction ys) auto

lemma mset_foldl_insert_by:
  "mset (foldl (\<lambda>acc x. insert_by cmp x acc) acc xs) = mset acc + mset xs"
  by (induction xs arbitrary: acc) auto

lemma mset_js_sort [simp]: "mset (js_sort cmp xs) = mset xs"
  by (simp add: js_sort_def mset_foldl_insert_by)

lemma sorted_insert_by:
  assumes key: "\<And>a b. cmp a b = f a - f b" and "sorted (map f ys)"
  shows "sorted (map (f :: 'a \<Rightarrow> int) (insert_by cmp x ys))"
  using assms(2) by (induction ys) (auto simp: key)

lemma filter_insert_by:
  assumes key: "\<And>a b. cmp a b = f a - f b" and "sorted (map f ys)"
  shows "filter (\<lambda>y. c = (f :: 'a \<Rightarrow> int) y) (insert_by cmp x ys) =
           filter (\<lambda>y. c = f y) ys @ (if c = f x then [x] else [])"
  using assms(2)
proof (induction ys)
  case Nil
  then show ?case by simp
next
  case (Cons y ys)
  show ?case
  proof (cases "f x < f y")
    case True
    with Cons.prems have "\<forall>z \<in> set (y # ys). f x < f z" by auto
    then have "filter (\<lambda>z. f x = f z) (y # ys) = []" by (auto simp: filter_empty_conv)
    with True show ?thesis by (auto simp: key)
  next
    case False
    with Cons show ?thesis by (auto simp: key)
  qed
qed

lemma foldl_insert_by:
  assumes key: "\<And>a b. cmp a b = f a - f b"
  shows "sorted (map f acc) \<Longrightarrow>
    sorted (map (f :: 'a \<Rightarrow> int) (foldl (\<lambda>acc x. insert_by cmp x acc) acc xs)) \<and>
    filter (\<lambda>y. c = f y) (foldl (\<lambda>acc x. insert_by cmp x acc) acc xs) =
      filter (\<lambda>y. c = f y) acc @ filter (\<lambda>y. c = f y) xs"
proof (induction xs arbitrary: acc)
  case Nil
  then show ?case by simp
next
  case (Cons x xs)
  have "sorted (map f (insert_by cmp x acc))"
    using Cons.prems by (rule sorted_insert_by [OF key])
  with Cons.IH show ?case
    by (simp add: filter_insert_by [OF key Cons.prems])
qed

lemma js_sort_eq_sort_key:
  assumes key: "\<And>a b. cmp a b = f a - f b"
  shows "js_sort cmp xs = sort_key (f :: 'a \<Rightarrow> int) xs"
proof (rule properties_for_sort_key [symmetric])
  have *: "sorted (map f (js_sort cmp xs)) \<and>
      filter (\<lambda>y. c = f y) (js_sort cmp xs) = filter (\<lambda>y. c = f y) xs" for c
    unfolding js_sort_def using foldl_insert_by [OF key, where acc = "[]"] by simp
  show "mset (js_sort cmp xs) = mset xs" by simp
  show "filter (\<lambda>x. f k = f x) (js_sort cmp xs) = filter (\<lambda>x. f k = f x) xs" for k
    using * by blast
  show "sorted (map f (js_sort cmp xs))"
    using * by blast
qed

lemma compare_items_key: "compare_items so a b = sort_key_of so a - sort_key_of so b"
  by (simp add: compare_items_def sort_key_of_def)

lemma processMarkets_sort_key_form:
  "processMarkets markets clock filterTier sortOrder language =
     sort_key (sort_key_of sortOrder) (filter (keep_item filterTier) (score_all markets clock language))"
  by (simp add: processMarkets_def js_sort_eq_sort_key [OF compare_items_key])

lemma map_insort_key_invariant:
  "(\<And>x. f (g x) = f x) \<Longrightarrow> map g (insort_key f x ys) = insort_key f (g x) (map g ys)"
  by (induction ys) auto

lemma map_sort_key_invariant:
  "(\<And>x. f (g x) = f x) \<Longrightarrow> map g (sort_key f xs) = sort_key f (map g xs)"
  by (induction xs) (simp_all add: map_insort_key_invariant)

lemma sort_key_of_asc: "sort_key_of ScoreAsc = (\<lambda>x. score (snd x))"
  by (rule ext) (simp add: sort_key_of_def)

lemma keep_item_FilterTier: "keep_item (FilterTier t) x \<longleftrightarrow> tier (snd x) = t"
  by (simp add: keep_item_def)

lemma length_score_all [simp]: "length (score_all markets clock language) = length markets"
  by (simp add: score_all_def)

lemma score_all_nth:
  "i < length markets \<Longrightarrow>
   score_all markets clock language ! i =
     (markets ! i, calculateInvestmentScore (markets ! i) (clock i) language)"
  by (simp add: score_all_def nth_enumerate_eq)

definition erase_analysis :: "market_data \<times> scoring_result \<Rightarrow> market_data \<times> scoring_result" where
  "erase_analysis x = (fst x, (snd x)\<lparr>analysis := []\<rparr>)"

lemma erase_analysis_keeps:
  "sort_key_of so (erase_analysis x) = sort_key_of so x"
  "keep_item f (erase_analysis x) = keep_item f x"
  "fst (erase_analysis x) = fst x"
  by (simp_all add: erase_analysis_def sort_key_of_def keep_item_def split: filter_option.splits)

lemma erase_analysis_score_all:
  "map erase_analysis (score_all markets clock l) = map erase_analysis (score_all markets clock l')"
proof -
  have "(calculateInvestmentScore m now l)\<lparr>analysis := []\<rparr> =
        (calculateInvestmentScore m now l')\<lparr>analysis := []\<rparr>" for m now
    by (simp add: calculateInvestmentScore_def Let_def)
  then show ?thesis
    by (simp add: score_all_def erase_analysis_def case_prod_beta)
qed

lemma map_fst_processMarkets:
  "map fst (processMarkets markets clock f so l) =
     map fst (sort_key (sort_key_of so) (filter (keep_item f) (map erase_analysis (score_all markets clock l))))"
proof -
  let ?xs = "filter (keep_item f) (score_all markets clock l)"
  have "map fst (sort_key (sort_key_of so) ?xs) =
        map fst (map erase_analysis (sort_key (sort_key_of so) ?xs))"
    by (simp add: comp_def erase_analysis_keeps)
  also have "\<dots> = map fst (sort_key (sort_key_of so) (map erase_analysis ?xs))"
    by (simp add: map_sort_key_invariant erase_analysis_keeps)
  also have "map erase_analysis ?xs = filter (keep_item f) (map erase_analysis (score_all markets clock l))"
    by (simp add: filter_map comp_def erase_analysis_keeps)
  finally show ?thesis by (simp add: processMarkets_sort_key_form)
qed

lemma mset_map_fst_all:
  "mset (map fst (processMarkets markets clock FilterAll so l)) = mset markets"
proof -
  have "map fst (score_all markets clock l) = map snd (enumerate 0 markets)"
    by (simp add: score_all_def case_prod_beta comp_def)
  then have "map fst (score_all markets clock l) = markets" by simp
  then have "mset (map fst (sort_key (sort_key_of so) (score_all markets clock l))) = mset markets"
    by (metis mset_map mset_sort)
  then show ?thesis
    by (simp add: processMarkets_sort_key_form keep_item_def)
qed

subsection \<open>Properties of the collection processor\<close>

text \<open>C11. The comparator sort of the source is the stable sort by key: the builtin
  sort with \<^verbatim>\<open>b.scoring.score - a.scoring.score\<close> is \<open>sort_key\<close> by minus the score,
  and with \<^verbatim>\<open>a.scoring.score - b.scoring.score\<close> it is \<open>sort_key\<close> by the score.\<close>

theorem comparator_sort_is_stable_sort:
  "js_sort (compare_items sortOrder) xs = sort_key (sort_key_of sortOrder) xs"
  by (rule js_sort_eq_sort_key) (rule compare_items_key)

text \<open>C12. Filtering by a tier keeps only markets whose scoring result has that tier.\<close>

theorem processMarkets_filter:
  "\<forall>x \<in> set (processMarkets markets clock (FilterTier t) sortOrder language). tier (snd x) = t"
  by (simp add: processMarkets_sort_key_form keep_item_FilterTier)

theorem processMarkets_filter_witness:
  "let m = \<lparr>market_id = ''w'', name = ''w'', protocol = ''w'', symbol = ''w'',
             expiry = 40 * 86400000, impliedAPY = 1, underlyingAPY = 10,
             historicalUnderlyingAPY = [1, 2], imageUrl = '''', marketUrl = '''', leverage = 1\<rparr>;
       out = processMarkets [m] (\<lambda>_. 0) (FilterTier StrongBuy) ScoreDesc En
   in out \<noteq> [] \<and> list_all (\<lambda>x. tier (snd x) = StrongBuy) out"
proof -
  let ?m = "\<lparr>market_id = ''w'', name = ''w'', protocol = ''w'', symbol = ''w'',
             expiry = 40 * 86400000, impliedAPY = 1, underlyingAPY = 10,
             historicalUnderlyingAPY = [1, 2], imageUrl = '''', marketUrl = '''', leverage = (1::real)\<rparr>"
  have "processMarkets [?m] (\<lambda>_. 0) (FilterTier StrongBuy) ScoreDesc En \<noteq> []"
    by (simp add: processMarkets_sort_key_form score_all_def keep_item_def score_simps eval_simps)
  with processMarkets_filter [of "[?m]" "\<lambda>_. 0" StrongBuy ScoreDesc En] show ?thesis
    by (simp only: Let_def list_all_iff) blast
qed

text \<open>With the filter \<open>All\<close>, every market is in the output: its length is the
  input's, and an empty input gives an empty output.\<close>

lemma processMarkets_all_length:
  "length (processMarkets markets clock FilterAll sortOrder language) = length markets"
  by (simp add: processMarkets_sort_key_form keep_item_def)

text \<open>C14. The output is ordered by score: non-increasing for \<open>scoreDesc\<close>,
  non-decreasing for \<open>scoreAsc\<close>.\<close>

theorem processMarkets_sorted:
  "sorted_wrt (\<lambda>a b. score (snd b) \<le> score (snd a)) (processMarkets markets clock f ScoreDesc language) \<and>
   sorted (map (\<lambda>x. score (snd x)) (processMarkets markets clock f ScoreAsc language))"
proof -
  have desc: "sorted (map (sort_key_of ScoreDesc) (processMarkets markets clock f ScoreDesc language))"
    and asc: "sorted (map (sort_key_of ScoreAsc) (processMarkets markets clock f ScoreAsc language))"
    by (simp_all add: processMarkets_sort_key_form)
  from desc have "sorted_wrt (\<lambda>a b. score (snd b) \<le> score (snd a))
                    (processMarkets markets clock f ScoreDesc language)"
    by (simp add: sorted_map sort_key_of_def)
  moreover from asc have "sorted (map (\<lambda>x. score (snd x)) (processMarkets markets clock f ScoreAsc language))"
    by (simp only: sort_key_of_asc)
  ultimately show ?thesis ..
qed

text \<open>C15. The output is a stable permutation of the filtered scored list: the same
  items, and items of equal score in their input order.\<close>

theorem processMarkets_stable_permutation:
  "mset (processMarkets markets clock f so language) =
     mset (filter (keep_item f) (score_all markets clock language)) \<and>
   (\<forall>s. filter (\<lambda>x. score (snd x) = s) (processMarkets markets clock f so language) =
        filter (\<lambda>x. score (snd x) = s) (filter (keep_item f) (score_all markets clock language)))"
proof -
  have key: "(\<lambda>x. score (snd x) = s) =
             (\<lambda>x. sort_key_of so x = (if so = ScoreDesc then - s else s))" for s
    by (auto simp: sort_key_of_def)
  show ?thesis
    by (simp only: processMarkets_sort_key_form key sort_key_stable mset_sort) simp
qed

text \<open>C16. The language changes neither which markets are shown nor their order.\<close>

theorem processMarkets_language_independent:
  "map fst (processMarkets markets clock f so l) = map fst (processMarkets markets clock f so l')"
  by (simp only: map_fst_processMarkets erase_analysis_score_all [of markets clock l l'])

text \<open>Scoring pairs every market with its own result, in input order; the
  \<open>i\<close>-th market is scored at the clock reading of the \<open>i\<close>-th call.\<close>

lemma score_all_pairs:
  "i < length markets \<Longrightarrow>
   fst (score_all markets clock language ! i) = markets ! i \<and>
   snd (score_all markets clock language ! i) =
     calculateInvestmentScore (markets ! i) (clock i) language"
  by (simp add: score_all_nth)

lemma score_all_pairs_example:
  "let m = \<lparr>market_id = ''a'', name = ''a'', protocol = ''a'', symbol = ''a'', expiry = 7,
             impliedAPY = 1, underlyingAPY = 2, historicalUnderlyingAPY = [],
             imageUrl = '''', marketUrl = '''', leverage = 1\<rparr>;
       ms = [m, m\<lparr>market_id := ''b''\<rparr>]
   in 1 < length ms \<and>
      fst (score_all ms (\<lambda>i. int i) En ! 1) = ms ! 1 \<and>
      snd (score_all ms (\<lambda>i. int i) En ! 1) = calculateInvestmentScore (ms ! 1) 1 En"
  unfolding Let_def using score_all_pairs [where i = 1 and clock = "\<lambda>i. int i"] by simp

end
