(* ===== verification/MockData.thy ===== *)
theory MockData
  imports Processing
begin

text \<open>
  The mock markets of \<^verbatim>\<open>src/services/mockData.ts\<close>, which are the markets the app
  actually displays (\<^verbatim>\<open>App\<close> maps \<^verbatim>\<open>MOCK_MARKETS\<close>), and the spec's
  scenarios evaluated on them. \<^verbatim>\<open>addDays\<close> reads the clock when the module loads;
  the model takes that instant as the parameter \<open>t0\<close> and adds whole days of
  milliseconds (\<^verbatim>\<open>setDate\<close> moves by calendar days, which is the same away from a
  daylight-saving change). The scenarios hold whenever the markets are scored within a day
  of loading, \<open>t0 \<le> now < t0 + ms_per_day\<close>.
\<close>

definition addDays :: "timestamp \<Rightarrow> int \<Rightarrow> timestamp" where
  "addDays t0 days = t0 + days * ms_per_day"

definition mock_eETH :: "timestamp \<Rightarrow> market_data" where
  "mock_eETH t0 =
     \<lparr>market_id = ''1'', name = ''Ether.fi eETH (26 Dec 2024)'', protocol = ''Ether.fi'',
      symbol = ''eETH'', expiry = addDays t0 120, impliedAPY = 12.5, underlyingAPY = 18.2,
      historicalUnderlyingAPY = [17.0, 17.2, 17.5, 17.8, 18.0, 18.1, 18.2],
      imageUrl = ''https://picsum.photos/id/1/200/200'',
      marketUrl = ''https://app.pendle.finance/trade/markets'', leverage = 15.2\<rparr>"

definition mock_USDe :: "timestamp \<Rightarrow> market_data" where
  "mock_USDe t0 =
     \<lparr>market_id = ''2'', name = ''Ethena USDe (24 Oct 2024)'', protocol = ''Ethena'',
      symbol = ''USDe'', expiry = addDays t0 45, impliedAPY = 25.0, underlyingAPY = 15.0,
      historicalUnderlyingAPY = [20.0, 19.0, 18.5, 17.0, 16.0, 15.5, 15.0],
      imageUrl = ''https://picsum.photos/id/2/200/200'',
      marketUrl = ''https://app.pendle.finance/trade/markets'', leverage = 8.5\<rparr>"

definition mock_ezETH :: "timestamp \<Rightarrow> market_data" where
  "mock_ezETH t0 =
     \<lparr>market_id = ''3'', name = ''Renzo ezETH (26 Dec 2024)'', protocol = ''Renzo'',
      symbol = ''ezETH'', expiry = addDays t0 120, impliedAPY = 14.0, underlyingAPY = 16.5,
      historicalUnderlyingAPY = [16.0, 16.1, 16.0, 16.2, 16.3, 16.4, 16.5],
      imageUrl = ''https://picsum.photos/id/3/200/200'',
      marketUrl = ''https://app.pendle.finance/trade/markets'', leverage = 12.1\<rparr>"

definition mock_rsETH :: "timestamp \<Rightarrow> market_data" where
  "mock_rsETH t0 =
     \<lparr>market_id = ''4'', name = ''Kelp DAO rsETH (Short Term)'', protocol = ''Kelp DAO'',
      symbol = ''rsETH'', expiry = addDays t0 15, impliedAPY = 8.0, underlyingAPY = 12.0,
      historicalUnderlyingAPY = [11.0, 11.2, 11.5, 11.8, 11.9, 12.0, 12.0],
      imageUrl = ''https://picsum.photos/id/4/200/200'',
      marketUrl = ''https://app.pendle.finance/trade/markets'', leverage = 35.0\<rparr>"

definition mock_pufETH :: "timestamp \<Rightarrow> market_data" where
  "mock_pufETH t0 =
     \<lparr>market_id = ''5'', name = ''Puffer pufETH (High Volatility)'', protocol = ''Puffer'',
      symbol = ''pufETH'', expiry = addDays t0 90, impliedAPY = 10.0, underlyingAPY = 14.5,
      historicalUnderlyingAPY = [14.5, 14.0, 13.5, 13.0, 13.5, 14.0, 14.5],
      imageUrl = ''https://picsum.photos/id/5/200/200'',
      marketUrl = ''https://app.pendle.finance/trade/markets'', leverage = 18.4\<rparr>"

definition MOCK_MARKETS :: "timestamp \<Rightarrow> market_data list" where
  "MOCK_MARKETS t0 = [mock_eETH t0, mock_USDe t0, mock_ezETH t0, mock_rsETH t0, mock_pufETH t0]"

text \<open>What \<^verbatim>\<open>App\<close> renders: the processed mock markets.\<close>

definition processedMarkets ::
  "timestamp \<Rightarrow> (nat \<Rightarrow> timestamp) \<Rightarrow> filter_option \<Rightarrow> sort_option \<Rightarrow> language
   \<Rightarrow> (market_data \<times> scoring_result) list" where
  "processedMarkets t0 clock filterTier sortOrder language =
     processMarkets (MOCK_MARKETS t0) clock filterTier sortOrder language"

declare mock_eETH_def [eval_simps] mock_USDe_def [eval_simps] mock_ezETH_def [eval_simps]
  mock_rsETH_def [eval_simps] mock_pufETH_def [eval_simps]

subsection \<open>Evaluating the scorer on the mock markets\<close>

lemma days_between_addDays:
  assumes "t0 \<le> now" and "now < t0 + ms_per_day"
  shows "days_between (addDays t0 n) now = n"
proof -
  have "addDays t0 n = now + n * ms_per_day - (now - t0)"
    by (simp add: addDays_def)
  then show ?thesis
    using days_between_exact [of "now - t0" now n] assms by simp
qed

lemma clamp_score_top: "100 \<le> x \<Longrightarrow> clamp_score x = 100"
  using js_round_mono [of 100 x] by (simp add: clamp_score_def)

lemma mock_raw_scores:
  assumes "t0 \<le> now" and "now < t0 + ms_per_day"
  shows "spec_raw_score (mock_eETH t0) now = 117.8"
    and "spec_raw_score (mock_USDe t0) now = 5"
    and "spec_raw_score (mock_ezETH t0) now = 85"
    and "spec_raw_score (mock_rsETH t0) now = 71"
    and "spec_raw_score (mock_pufETH t0) now = 93"
  using days_between_addDays [OF assms]
  by (simp_all add: spec_raw_score_def spread_contribution_def trend_contribution_def
      maturity_contribution_def mock_eETH_def mock_USDe_def mock_ezETH_def mock_rsETH_def
      mock_pufETH_def)

lemma mock_scores:
  assumes "t0 \<le> now" and "now < t0 + ms_per_day"
  shows "score (calculateInvestmentScore (mock_eETH t0) now l) = 100"
    and "score (calculateInvestmentScore (mock_USDe t0) now l) = 5"
    and "score (calculateInvestmentScore (mock_ezETH t0) now l) = 85"
    and "score (calculateInvestmentScore (mock_rsETH t0) now l) = 71"
    and "score (calculateInvestmentScore (mock_pufETH t0) now l) = 93"
  using mock_raw_scores [OF assms]
  by (simp_all add: score_simps clamp_score_top) (simp_all add: clamp_score_def)

lemma mock_tiers:
  assumes "t0 \<le> now" and "now < t0 + ms_per_day"
  shows "tier (calculateInvestmentScore (mock_eETH t0) now l) = StrongBuy"
    and "tier (calculateInvestmentScore (mock_USDe t0) now l) = Avoid"
    and "tier (calculateInvestmentScore (mock_ezETH t0) now l) = StrongBuy"
    and "tier (calculateInvestmentScore (mock_rsETH t0) now l) = Buy"
    and "tier (calculateInvestmentScore (mock_pufETH t0) now l) = StrongBuy"
  using mock_scores [OF assms, of l] by (simp_all add: score_simps classify_def)

lemma mock_days:
  assumes "t0 \<le> now" and "now < t0 + ms_per_day"
  shows "days_between (expiry (mock_eETH t0)) now = 120"
    and "days_between (expiry (mock_USDe t0)) now = 45"
    and "days_between (expiry (mock_rsETH t0)) now = 15"
    and "days_between (expiry (mock_pufETH t0)) now = 90"
  using days_between_addDays [OF assms]
  by (simp_all add: mock_eETH_def mock_USDe_def mock_rsETH_def mock_pufETH_def)

lemma mock_sort_keys:
  assumes "t0 \<le> now" and "now < t0 + ms_per_day"
  shows "sort_key_of so (m, calculateInvestmentScore (mock_eETH t0) now l) = (if so = ScoreDesc then -100 else 100)"
    and "sort_key_of so (m, calculateInvestmentScore (mock_USDe t0) now l) = (if so = ScoreDesc then -5 else 5)"
    and "sort_key_of so (m, calculateInvestmentScore (mock_ezETH t0) now l) = (if so = ScoreDesc then -85 else 85)"
    and "sort_key_of so (m, calculateInvestmentScore (mock_rsETH t0) now l) = (if so = ScoreDesc then -71 else 71)"
    and "sort_key_of so (m, calculateInvestmentScore (mock_pufETH t0) now l) = (if so = ScoreDesc then -93 else 93)"
  using mock_scores [OF assms, of l] by (simp_all add: sort_key_of_def)

lemma processedMarkets_form:
  "processedMarkets t0 clock f so l =
     sort_key (sort_key_of so) (filter (keep_item f)
       [(mock_eETH t0, calculateInvestmentScore (mock_eETH t0) (clock 0) l),
        (mock_USDe t0, calculateInvestmentScore (mock_USDe t0) (clock 1) l),
        (mock_ezETH t0, calculateInvestmentScore (mock_ezETH t0) (clock 2) l),
        (mock_rsETH t0, calculateInvestmentScore (mock_rsETH t0) (clock 3) l),
        (mock_pufETH t0, calculateInvestmentScore (mock_pufETH t0) (clock 4) l)])"
  by (simp add: processedMarkets_def processMarkets_sort_key_form MOCK_MARKETS_def score_all_def
      numeral_eq_Suc)

subsection \<open>The spec's scenarios\<close>

text \<open>C18. Scenario A (eETH): spread 5.7 gives 22.8 + 20, rising trend +20, 120 days +5;
  the raw 117.8 is clamped to 100, Strong Buy.\<close>

theorem scenario_A:
  assumes "t0 \<le> now" and "now < t0 + ms_per_day"
  shows "score (calculateInvestmentScore (mock_eETH t0) now l) = 100 \<and>
         tier (calculateInvestmentScore (mock_eETH t0) now l) = StrongBuy \<and>
         breakdown (calculateInvestmentScore (mock_eETH t0) now l) =
           \<lparr>spreadFactor = 42.8, maturityFactor = 5, trendFactor = 20\<rparr>"
  using mock_scores [OF assms] mock_tiers [OF assms] mock_days [OF assms]
  by (simp add: score_simps spread_contribution_def trend_contribution_def
      maturity_contribution_def mock_eETH_def)

theorem scenario_A_witness:
  "(0::int) \<le> 0 \<and> (0::int) < 0 + ms_per_day \<and>
   score (calculateInvestmentScore (mock_eETH 0) 0 En) = 100 \<and>
   tier (calculateInvestmentScore (mock_eETH 0) 0 En) = StrongBuy \<and>
   breakdown (calculateInvestmentScore (mock_eETH 0) 0 En) =
     \<lparr>spreadFactor = 42.8, maturityFactor = 5, trendFactor = 20\<rparr>"
  using scenario_A [of 0 0 En] by simp

text \<open>C19. Scenario B (USDe): spread -10 floored at -40, falling trend -10, 45 days +5:
  score 5, Avoid.\<close>

theorem scenario_B:
  assumes "t0 \<le> now" and "now < t0 + ms_per_day"
  shows "score (calculateInvestmentScore (mock_USDe t0) now l) = 5 \<and>
         tier (calculateInvestmentScore (mock_USDe t0) now l) = Avoid \<and>
         breakdown (calculateInvestmentScore (mock_USDe t0) now l) =
           \<lparr>spreadFactor = -40, maturityFactor = 5, trendFactor = -10\<rparr>"
  using mock_scores [OF assms] mock_tiers [OF assms] mock_days [OF assms]
  by (simp add: score_simps spread_contribution_def trend_contribution_def
      maturity_contribution_def mock_USDe_def)

theorem scenario_B_witness:
  "(0::int) \<le> 0 \<and> (0::int) < 0 + ms_per_day \<and>
   score (calculateInvestmentScore (mock_USDe 0) 0 Ko) = 5 \<and>
   tier (calculateInvestmentScore (mock_USDe 0) 0 Ko) = Avoid \<and>
   breakdown (calculateInvestmentScore (mock_USDe 0) 0 Ko) =
     \<lparr>spreadFactor = -40, maturityFactor = 5, trendFactor = -10\<rparr>"
  using scenario_B [of 0 0 Ko] by simp

text \<open>C20. Scenario C (rsETH): 15 days to maturity costs 35, but spread 4 (16 + 20) and a
  rising trend (+20) outweigh it: score 71, Buy.\<close>

theorem scenario_C:
  assumes "t0 \<le> now" and "now < t0 + ms_per_day"
  shows "score (calculateInvestmentScore (mock_rsETH t0) now l) = 71 \<and>
         tier (calculateInvestmentScore (mock_rsETH t0) now l) = Buy \<and>
         breakdown (calculateInvestmentScore (mock_rsETH t0) now l) =
           \<lparr>spreadFactor = 36, maturityFactor = -35, trendFactor = 20\<rparr>"
  using mock_scores [OF assms] mock_tiers [OF assms] mock_days [OF assms]
  by (simp add: score_simps spread_contribution_def trend_contribution_def
      maturity_contribution_def mock_rsETH_def)

theorem scenario_C_witness:
  "(0::int) \<le> 0 \<and> (0::int) < 0 + ms_per_day \<and>
   score (calculateInvestmentScore (mock_rsETH 0) 0 En) = 71 \<and>
   tier (calculateInvestmentScore (mock_rsETH 0) 0 En) = Buy \<and>
   breakdown (calculateInvestmentScore (mock_rsETH 0) 0 En) =
     \<lparr>spreadFactor = 36, maturityFactor = -35, trendFactor = 20\<rparr>"
  using scenario_C [of 0 0 En] by simp

text \<open>C21. A Strong Buy without the ideal spread: ezETH has a spread of 2.5 points, below
  the 3 points that the score guide's description of Strong Buy ("Spread > 3\% \& Rising
  Trend") requires, and is still rated Strong Buy (85).\<close>

theorem strong_buy_below_ideal_spread:
  assumes "t0 \<le> now" and "now < t0 + ms_per_day"
  shows "underlyingAPY (mock_ezETH t0) - impliedAPY (mock_ezETH t0) < 3 \<and>
         score (calculateInvestmentScore (mock_ezETH t0) now l) = 85 \<and>
         tier (calculateInvestmentScore (mock_ezETH t0) now l) = StrongBuy"
  using mock_scores [OF assms] mock_tiers [OF assms] by (simp add: mock_ezETH_def)

theorem strong_buy_below_ideal_spread_witness:
  "(0::int) \<le> 0 \<and> (0::int) < 0 + ms_per_day \<and>
   underlyingAPY (mock_ezETH 0) - impliedAPY (mock_ezETH 0) < 3 \<and>
   score (calculateInvestmentScore (mock_ezETH 0) 0 En) = 85 \<and>
   tier (calculateInvestmentScore (mock_ezETH 0) 0 En) = StrongBuy"
  using strong_buy_below_ideal_spread [of 0 0 En] by simp

text \<open>C22. What the app shows by default (all tiers, highest score first) when the mock
  markets are scored within a day of loading: eETH 100, pufETH 93, ezETH 85, rsETH 71,
  USDe 5; with the Strong Buy filter, lowest first: ezETH, pufETH, eETH.\<close>

theorem app_default_order:
  assumes "\<And>i. t0 \<le> clock i" and "\<And>i. clock i < t0 + ms_per_day"
  shows "map (\<lambda>x. market_id (fst x)) (processedMarkets t0 clock FilterAll ScoreDesc l) =
           [''1'', ''5'', ''3'', ''4'', ''2''] \<and>
         map (\<lambda>x. market_id (fst x)) (processedMarkets t0 clock (FilterTier StrongBuy) ScoreAsc l) =
           [''3'', ''5'', ''1'']"
  using mock_sort_keys [OF assms] mock_tiers [OF assms]
  by (simp add: processedMarkets_form keep_item_def) (simp add: eval_simps)

theorem app_default_order_witness:
  "(\<forall>i. (0::int) \<le> (\<lambda>_. 0) i \<and> (\<lambda>_. 0) i < 0 + ms_per_day) \<and>
   map (\<lambda>x. market_id (fst x)) (processedMarkets 0 (\<lambda>_. 0) FilterAll ScoreDesc En) =
     [''1'', ''5'', ''3'', ''4'', ''2''] \<and>
   map (\<lambda>x. market_id (fst x)) (processedMarkets 0 (\<lambda>_. 0) (FilterTier StrongBuy) ScoreAsc En) =
     [''3'', ''5'', ''1'']"
  using app_default_order [of 0 "\<lambda>_. 0" En] by simp

end
