(* ===== verification/Provider.thy ===== *)
theory Provider
  imports MockData
begin

text \<open>
  The market data provider, \<^verbatim>\<open>fetchPendleMarkets\<close> of
  \<^verbatim>\<open>src/services/pendleApi.ts\<close>. The network is outside the model: what each
  chain's request returned is an argument (\<open>chain_response\<close>: the fetch rejected, the
  status was not ok, the body was not JSON, or a JSON body whose \<^verbatim>\<open>results\<close> may be
  missing). Each market of a body is an \<open>api_market\<close> whose fields may be absent
  (\<open>None\<close>, JavaScript's \<^verbatim>\<open>undefined\<close>). The clock (\<^verbatim>\<open>Date.now()\<close>, read
  once per market) and the draws of \<^verbatim>\<open>Math.random()\<close> (seven per market, each in
  \<open>[0, 1)\<close>) are arguments too.

  Errors are values: the mapping of one market either yields a market or throws
  (\<open>Inl TypeError\<close>, when \<^verbatim>\<open>m.name.split\<close> is reached with no name); a throw
  inside \<^verbatim>\<open>map\<close> leaves the chain's \<^verbatim>\<open>try\<close> and the chain contributes no market,
  as does every failed request. \<^verbatim>\<open>Promise.all\<close> keeps the order of \<^verbatim>\<open>CHAINS\<close>.
  A missing string that the code stores unchanged (\<^verbatim>\<open>name\<close>, or \<^verbatim>\<open>symbol\<close> when
  every fallback is absent) becomes the text \<^verbatim>\<open>undefined\<close>, which is what the app's
  templates print for it. Expiry strings are taken as parsed timestamps: an unparsable
  date (\<^verbatim>\<open>NaN\<close>) is not modelled.
\<close>

datatype api_error = TypeError

record api_market =
  api_address :: string
  api_name :: "string option"
  api_protocol :: "string option"
  api_expiry :: timestamp
  api_impliedApy :: "real option"
  api_underlyingApy :: "real option"
  api_pt_symbol :: "string option"
  api_accounting_symbol :: "string option"
  api_input_logo :: "string option"
  api_underlying_logo :: "string option"
  api_accounting_logo :: "string option"

datatype chain_response =
    NetworkError
  | HttpError string
  | BadJson
  | JsonBody "api_market list option"

definition CHAINS :: "nat list" where
  "CHAINS = [1, 42161]"

definition js_undefined_text :: "string option \<Rightarrow> string" where
  "js_undefined_text s = (case s of Some v \<Rightarrow> v | None \<Rightarrow> ''undefined'')"

text \<open>\<^verbatim>\<open>(m.impliedApy || 0) * 100\<close>: the API gives fractions, the model percent.\<close>

definition api_percent :: "real option \<Rightarrow> percent" where
  "api_percent x = (case x of Some v \<Rightarrow> v | None \<Rightarrow> 0) * 100"

text \<open>The leverage estimate: one over the years to maturity (at least one day), clamped
  to \<open>[1, 50]\<close>, then \<^verbatim>\<open>parseFloat(x.toFixed(1))\<close>.\<close>

definition estimate_leverage :: "timestamp \<Rightarrow> timestamp \<Rightarrow> real" where
  "estimate_leverage expiryDate nowMs =
     (let daysToMaturity = max 1 (real_of_int (expiryDate - nowMs) / real_of_int ms_per_day);
          yearsToMaturity = daysToMaturity / 365;
          l0 = 1 / yearsToMaturity;
          l1 = (if l0 > 50 then 50 else l0);
          l2 = (if l1 < 1 then 1 else l1)
      in l2)"

definition to_fixed1_float :: "real \<Rightarrow> real" where
  "to_fixed1_float x =
     (let n = real_of_int \<lfloor>\<bar>x\<bar> * 10 + 1/2\<rfloor> / 10 in if x < 0 then - n else n)"

text \<open>The synthetic seven-day history, from the seven draws \<open>rnd i\<close> of
  \<^verbatim>\<open>Math.random()\<close>.\<close>

definition mock_history :: "percent \<Rightarrow> percent \<Rightarrow> (nat \<Rightarrow> real) \<Rightarrow> percent list" where
  "mock_history impliedAPY' underlyingAPY' rnd =
     map (\<lambda>i. let noise = (rnd i - 0.5) * 2;
                  trendBias = (if underlyingAPY' - impliedAPY' > 0 then 0.1 else -0.1)
              in underlyingAPY' + noise - (3 - real i) * trendBias) [0..<7]"

text \<open>\<^verbatim>\<open>m.protocol || m.name.split(' ')[0] || 'Unknown'\<close>: the name is only read when
  the protocol is falsy, and reading it when it is absent throws.\<close>

definition protocol_name :: "api_market \<Rightarrow> api_error + string" where
  "protocol_name m =
     (case js_or (api_protocol m) None of
        Some p \<Rightarrow> Inr p
      | None \<Rightarrow> (case api_name m of
                   None \<Rightarrow> Inl TypeError
                 | Some n \<Rightarrow> Inr (let w = takeWhile (\<lambda>c. c \<noteq> CHR '' '') n
                                 in if w = [] then ''Unknown'' else w)))"

text \<open>\<^verbatim>\<open>s.replace(/^PT-/, '')\<close>.\<close>

definition strip_pt :: "string \<Rightarrow> string" where
  "strip_pt s = (if take 3 s = ''PT-'' then drop 3 s else s)"

definition symbol_of :: "api_market \<Rightarrow> string" where
  "symbol_of m =
     js_undefined_text
       (js_or (map_option strip_pt (api_pt_symbol m))
          (js_or (api_accounting_symbol m) (api_name m)))"

definition image_of :: "api_market \<Rightarrow> string" where
  "image_of m =
     (case js_or (api_input_logo m) (js_or (api_underlying_logo m) (api_accounting_logo m)) of
        Some u \<Rightarrow> u
      | None \<Rightarrow> ''https://cryptologos.cc/logos/ethereum-eth-logo.png'')"

definition market_url :: "string \<Rightarrow> nat \<Rightarrow> string" where
  "market_url address chainId =
     ''https://app.pendle.finance/trade/markets/'' @ address @ ''/swap?view=yt&chain='' @
     js_int_string (int chainId)"

text \<open>The callback of \<^verbatim>\<open>(data.results || []).map(...)\<close> for one market.\<close>

definition map_api_market ::
  "nat \<Rightarrow> timestamp \<Rightarrow> (nat \<Rightarrow> real) \<Rightarrow> api_market \<Rightarrow> api_error + market_data" where
  "map_api_market chainId nowMs rnd m =
     (let impliedAPY' = api_percent (api_impliedApy m);
          underlyingAPY' = api_percent (api_underlyingApy m);
          expiryDate = api_expiry m;
          estimatedLeverage = estimate_leverage expiryDate nowMs;
          hist = mock_history impliedAPY' underlyingAPY' rnd
      in case protocol_name m of
           Inl e \<Rightarrow> Inl e
         | Inr protocolName \<Rightarrow>
             Inr \<lparr>market_id = api_address m, name = js_undefined_text (api_name m),
                  protocol = protocolName, symbol = symbol_of m, expiry = expiryDate,
                  impliedAPY = impliedAPY', underlyingAPY = underlyingAPY',
                  historicalUnderlyingAPY = hist, imageUrl = image_of m,
                  marketUrl = market_url (api_address m) chainId,
                  leverage = to_fixed1_float estimatedLeverage\<rparr>)"

text \<open>\<^verbatim>\<open>Array.prototype.map\<close> with a callback that may throw: the first throw aborts.
  Market \<open>i\<close> of the chain reads the clock \<open>clock i\<close> and the draws \<open>rnd i\<close>.\<close>

fun map_markets ::
  "nat \<Rightarrow> (nat \<Rightarrow> timestamp) \<Rightarrow> (nat \<Rightarrow> nat \<Rightarrow> real) \<Rightarrow> nat \<Rightarrow> api_market list
   \<Rightarrow> api_error + market_data list" where
  "map_markets chainId clock rnd i [] = Inr []"
| "map_markets chainId clock rnd i (m # ms) =
     (case map_api_market chainId (clock i) (rnd i) m of
        Inl e \<Rightarrow> Inl e
      | Inr md \<Rightarrow> (case map_markets chainId clock rnd (Suc i) ms of
                    Inl e \<Rightarrow> Inl e
                  | Inr mds \<Rightarrow> Inr (md # mds)))"

text \<open>One chain's request: every failure, thrown or returned, gives \<open>[]\<close>.\<close>

definition fetch_chain ::
  "nat \<Rightarrow> (nat \<Rightarrow> timestamp) \<Rightarrow> (nat \<Rightarrow> nat \<Rightarrow> real) \<Rightarrow> chain_response \<Rightarrow> market_data list" where
  "fetch_chain chainId clock rnd resp =
     (case resp of
        NetworkError \<Rightarrow> []
      | HttpError _ \<Rightarrow> []
      | BadJson \<Rightarrow> []
      | JsonBody results \<Rightarrow>
          (case map_markets chainId clock rnd 0 (case results of Some rs \<Rightarrow> rs | None \<Rightarrow> []) of
             Inl _ \<Rightarrow> []
           | Inr mds \<Rightarrow> mds))"

fun request_failed :: "chain_response \<Rightarrow> bool" where
  "request_failed (JsonBody _) = False"
| "request_failed _ = True"

definition valid_market :: "market_data \<Rightarrow> bool" where
  "valid_market m \<longleftrightarrow> impliedAPY m \<ge> 0 \<and> underlyingAPY m \<ge> 0"

text \<open>The whole fetch. \<open>resp c\<close>, \<open>clock c\<close>, \<open>rnd c\<close> belong to chain \<open>c\<close>;
  \<open>t0\<close> is the load time of the mock data returned as the fallback.\<close>

definition fetchPendleMarkets ::
  "(nat \<Rightarrow> chain_response) \<Rightarrow> (nat \<Rightarrow> nat \<Rightarrow> timestamp) \<Rightarrow> (nat \<Rightarrow> nat \<Rightarrow> nat \<Rightarrow> real)
   \<Rightarrow> timestamp \<Rightarrow> market_data list" where
  "fetchPendleMarkets resp clock rnd t0 =
     (let allMarkets = concat (map (\<lambda>c. fetch_chain c (clock c) (rnd c) (resp c)) CHAINS);
          validMarkets = filter valid_market allMarkets
      in if length validMarkets > 0 then validMarkets else MOCK_MARKETS t0)"


subsection \<open>Lemmas\<close>

lemma estimate_leverage_bounds: "1 \<le> estimate_leverage e n \<and> estimate_leverage e n \<le> 50"
  by (simp add: estimate_leverage_def Let_def)

lemma to_fixed1_float_bounds:
  assumes "1 \<le> x" and "x \<le> 50"
  shows "1 \<le> to_fixed1_float x \<and> to_fixed1_float x \<le> 50"
proof -
  have lo: "10 \<le> \<lfloor>\<bar>x\<bar> * 10 + 1/2\<rfloor>" using assms by (simp add: le_floor_iff)
  have hi: "\<lfloor>\<bar>x\<bar> * 10 + 1/2\<rfloor> \<le> 500" using assms by (simp add: floor_le_iff)
  from lo have "(10::real) \<le> real_of_int \<lfloor>\<bar>x\<bar> * 10 + 1/2\<rfloor>" by linarith
  moreover from hi have "real_of_int \<lfloor>\<bar>x\<bar> * 10 + 1/2\<rfloor> \<le> (500::real)" by linarith
  ultimately show ?thesis using assms by (simp add: to_fixed1_float_def Let_def)
qed

lemma estimate_leverage_cap:
  assumes "e - n \<le> 7 * ms_per_day"
  shows "estimate_leverage e n = 50"
proof -
  let ?d = "max 1 (real_of_int (e - n) / real_of_int ms_per_day)"
  have "real_of_int (e - n) \<le> 7 * 86400000" using assms by simp
  then have "real_of_int (e - n) / 86400000 \<le> 7" by simp
  then have d: "1 \<le> ?d" "?d \<le> 7" by auto
  then have "365 / 7 \<le> 365 / ?d" by (intro divide_left_mono) auto
  then have "50 < 1 / (?d / 365)" by simp
  then show ?thesis by (simp add: estimate_leverage_def Let_def)
qed

lemma to_fixed1_float_50 [simp]: "to_fixed1_float 50 = 50"
  by (simp add: to_fixed1_float_def)

lemma map_api_market_Inl: "map_api_market c n r m = Inl e \<longleftrightarrow> protocol_name m = Inl e"
  by (simp add: map_api_market_def Let_def split: sum.splits)

lemma map_api_market_Inr:
  "map_api_market c n r m = Inr md \<Longrightarrow>
     leverage md = to_fixed1_float (estimate_leverage (api_expiry m) n) \<and>
     impliedAPY md = api_percent (api_impliedApy m) \<and>
     underlyingAPY md = api_percent (api_underlyingApy m) \<and>
     historicalUnderlyingAPY md =
       mock_history (api_percent (api_impliedApy m)) (api_percent (api_underlyingApy m)) r"
  by (auto simp: map_api_market_def Let_def split: sum.splits)

lemma map_markets_Inl:
  "m \<in> set ms \<Longrightarrow> protocol_name m = Inl e \<Longrightarrow> \<exists>e'. map_markets c clock rnd i ms = Inl e'"
proof (induction ms arbitrary: i)
  case Nil
  then show ?case by simp
next
  case (Cons m' ms)
  show ?case
  proof (cases "m' = m")
    case True
    with Cons.prems have "map_api_market c (clock i) (rnd i) m' = Inl e"
      by (simp add: map_api_market_Inl)
    then show ?thesis by simp
  next
    case False
    with Cons.prems have "m \<in> set ms" by simp
    with Cons.IH Cons.prems obtain e' where "map_markets c clock rnd (Suc i) ms = Inl e'"
      by blast
    then show ?thesis by (simp split: sum.splits)
  qed
qed

lemma MOCK_MARKETS_valid: "\<forall>m \<in> set (MOCK_MARKETS t0). valid_market m"
  by (simp add: MOCK_MARKETS_def valid_market_def eval_simps)

lemma fetch_chain_failed: "request_failed r \<Longrightarrow> fetch_chain c clock rnd r = []"
  by (cases r) (simp_all add: fetch_chain_def)

lemma fetchPendleMarkets_chains:
  "fetchPendleMarkets resp clock rnd t0 =
     (let v = filter valid_market
                (fetch_chain 1 (clock 1) (rnd 1) (resp 1) @
                 fetch_chain 42161 (clock 42161) (rnd 42161) (resp 42161))
      in if v = [] then MOCK_MARKETS t0 else v)"
  by (simp add: fetchPendleMarkets_def CHAINS_def Let_def)

lemma hd_last_mock_history:
  "hd (mock_history i u rnd) = u + (rnd 0 - 0.5) * 2 - 3 * (if u - i > 0 then 0.1 else -0.1) \<and>
   last (mock_history i u rnd) = u + (rnd 6 - 0.5) * 2 + 3 * (if u - i > 0 then 0.1 else -0.1) \<and>
   length (mock_history i u rnd) = 7"
  by (simp add: mock_history_def hd_map last_map)




subsection \<open>Properties of the provider\<close>

text \<open>C24. Every market the provider builds from an API record has a leverage between 1
  and 50, and the cap at 50 is reached by every market at most seven days from expiry
  (365 / 7 > 50): the code clamps at 50, not at the 100 its comment announces. The
  record's expiry is a date here; a missing one gives \<^verbatim>\<open>NaN\<close>, outside the
  model's numbers, and is reported separately.\<close>

theorem mapped_leverage_bounds:
  "map_api_market c now rnd m = Inr md \<Longrightarrow>
   1 \<le> leverage md \<and> leverage md \<le> 50 \<and>
   (api_expiry m - now \<le> 7 * ms_per_day \<longrightarrow> leverage md = 50)"
  using estimate_leverage_bounds to_fixed1_float_bounds estimate_leverage_cap
  by (auto dest: map_api_market_Inr)

theorem mapped_leverage_bounds_witness:
  "let m = \<lparr>api_address = ''0xa'', api_name = Some ''Ether.fi eETH'', api_protocol = None,
             api_expiry = 5 * 86400000, api_impliedApy = Some 0.1, api_underlyingApy = None,
             api_pt_symbol = Some ''PT-eETH'', api_accounting_symbol = None, api_input_logo = None,
             api_underlying_logo = None, api_accounting_logo = None\<rparr>
   in (\<exists>md. map_api_market 1 0 (\<lambda>_. 0) m = Inr md \<and> api_expiry m - 0 \<le> 7 * ms_per_day \<and>
            1 \<le> leverage md \<and> leverage md \<le> 50 \<and> leverage md = 50)"
proof -
  let ?m = "\<lparr>api_address = ''0xa'', api_name = Some ''Ether.fi eETH'', api_protocol = None,
             api_expiry = 5 * 86400000, api_impliedApy = Some (0.1::real), api_underlyingApy = None,
             api_pt_symbol = Some ''PT-eETH'', api_accounting_symbol = None, api_input_logo = None,
             api_underlying_logo = None, api_accounting_logo = None\<rparr>"
  have "protocol_name ?m = Inr ''Ether.fi''"
    by (simp add: protocol_name_def)
  then obtain md where md: "map_api_market 1 0 (\<lambda>_. 0) ?m = Inr md"
    by (simp add: map_api_market_def Let_def)
  have e: "api_expiry ?m - 0 \<le> 7 * ms_per_day" by simp
  from mapped_leverage_bounds [OF md] md e show ?thesis by auto
qed

text \<open>C25. Whatever the chains answer, the provider returns a non-empty list of markets
  with non-negative APYs: the valid fetched markets, or the mock markets.\<close>

theorem fetch_result_valid:
  "fetchPendleMarkets resp clock rnd t0 \<noteq> [] \<and>
   (\<forall>m \<in> set (fetchPendleMarkets resp clock rnd t0). 0 \<le> impliedAPY m \<and> 0 \<le> underlyingAPY m)"
  using MOCK_MARKETS_valid [of t0]
  by (auto simp: fetchPendleMarkets_def Let_def MOCK_MARKETS_def valid_market_def)

theorem fetch_result_valid_witness:
  "fetchPendleMarkets (\<lambda>_. NetworkError) (\<lambda>_ _. 0) (\<lambda>_ _ _. 0) 0 = MOCK_MARKETS 0 \<and>
   list_all (\<lambda>m. 0 \<le> impliedAPY m \<and> 0 \<le> underlyingAPY m)
     (fetchPendleMarkets (\<lambda>_. NetworkError) (\<lambda>_ _. 0) (\<lambda>_ _ _. 0) 0)"
  using fetch_result_valid [of "\<lambda>_. NetworkError" "\<lambda>_ _. 0" "\<lambda>_ _ _. 0" 0]
  by (simp add: fetchPendleMarkets_chains fetch_chain_failed list_all_iff)

text \<open>C26. A failed request on chain 1 (network error, bad status or bad JSON) costs only
  that chain's markets: the result is the valid markets of chain 42161, or the mock
  markets if there are none.\<close>

theorem failed_chain_isolated:
  "request_failed (resp 1) \<Longrightarrow>
   fetchPendleMarkets resp clock rnd t0 =
     (let v = filter valid_market (fetch_chain 42161 (clock 42161) (rnd 42161) (resp 42161))
      in if v = [] then MOCK_MARKETS t0 else v)"
  by (simp add: fetchPendleMarkets_chains fetch_chain_failed)

theorem failed_chain_isolated_witness:
  "request_failed (HttpError ''Bad Gateway'') \<and>
   fetchPendleMarkets (\<lambda>c. if c = 1 then HttpError ''Bad Gateway'' else JsonBody None)
      (\<lambda>_ _. 0) (\<lambda>_ _ _. 0) 7 = MOCK_MARKETS 7"
  using failed_chain_isolated [of "\<lambda>c. if c = 1 then HttpError ''Bad Gateway'' else JsonBody None"
      "\<lambda>_ _. 0" "\<lambda>_ _ _. 0" 7]
  by (simp add: fetch_chain_def)

text \<open>C27. One market with neither a protocol nor a name makes \<^verbatim>\<open>m.name.split\<close>
  throw inside \<^verbatim>\<open>map\<close>; the chain's \<^verbatim>\<open>catch\<close> then drops every market of
  that chain, the well-formed ones included.\<close>

theorem unnamed_market_drops_chain:
  assumes "m \<in> set rs" and "api_name m = None" and "js_or (api_protocol m) None = None"
  shows "fetch_chain c clock rnd (JsonBody (Some rs)) = []"
proof -
  have "protocol_name m = Inl TypeError"
    using assms(2,3) by (simp add: protocol_name_def)
  with assms(1) obtain e where "map_markets c clock rnd 0 rs = Inl e"
    using map_markets_Inl by blast
  then show ?thesis by (simp add: fetch_chain_def)
qed

theorem unnamed_market_drops_chain_witness:
  "let good = \<lparr>api_address = ''0xa'', api_name = Some ''Renzo ezETH'', api_protocol = Some ''Renzo'',
                api_expiry = 0, api_impliedApy = Some 0.1, api_underlyingApy = Some 0.2,
                api_pt_symbol = None, api_accounting_symbol = None, api_input_logo = None,
                api_underlying_logo = None, api_accounting_logo = None\<rparr>;
       bad = good\<lparr>api_name := None, api_protocol := Some []\<rparr>
   in bad \<in> set [good, bad] \<and> api_name bad = None \<and> js_or (api_protocol bad) None = None \<and>
      fetch_chain 1 (\<lambda>_. 0) (\<lambda>_ _. 0) (JsonBody (Some [good, bad])) = []"
proof -
  let ?good = "\<lparr>api_address = ''0xa'', api_name = Some ''Renzo ezETH'', api_protocol = Some ''Renzo'',
                api_expiry = 0, api_impliedApy = Some (0.1::real), api_underlyingApy = Some 0.2,
                api_pt_symbol = None, api_accounting_symbol = None, api_input_logo = None,
                api_underlying_logo = None, api_accounting_logo = None\<rparr>"
  let ?bad = "?good\<lparr>api_name := None, api_protocol := Some []\<rparr>"
  have "fetch_chain 1 (\<lambda>_. 0) (\<lambda>_ _. 0) (JsonBody (Some [?good, ?bad])) = []"
    by (rule unnamed_market_drops_chain [of ?bad]) simp_all
  then show ?thesis by (simp add: Let_def)
qed

text \<open>C28. The synthetic history of a market with a positive spread rises (first point
  below last) exactly when the first and seventh draws of \<^verbatim>\<open>Math.random()\<close> differ
  by less than 0.3: the noise of amplitude 1 outweighs the 0.6 of trend bias, so the
  "slightly upward" history falls for about a quarter of the draws.\<close>

theorem synthetic_trend_rises_iff:
  "0 < u - i \<Longrightarrow> trend_rises (mock_history i u rnd) \<longleftrightarrow> rnd 0 - rnd 6 < 0.3"
  using hd_last_mock_history [of i u rnd] by (auto simp: trend_rises_def)

theorem synthetic_trend_rises_iff_witness:
  "(0::real) < 18.2 - 12.5 \<and> \<not> trend_rises (mock_history 12.5 18.2 (\<lambda>k. if k = 0 then 0.9 else 0.1))"
proof -
  let ?r = "\<lambda>k::nat. if k = 0 then 0.9 else (0.1::real)"
  have h: "(0::real) < 18.2 - 12.5" by simp
  have "trend_rises (mock_history 12.5 18.2 ?r) \<longleftrightarrow> ?r 0 - ?r 6 < 0.3"
    by (rule synthetic_trend_rises_iff [OF h])
  moreover have "\<not> (?r 0 - ?r 6 < (0.3::real))" by simp
  ultimately show ?thesis using h by blast
qed

text \<open>C29. Building a market throws exactly when the protocol is missing or empty and the
  name is missing; otherwise its protocol label is never empty.\<close>

theorem protocol_name_error_iff:
  "(protocol_name m = Inl TypeError \<longleftrightarrow> js_or (api_protocol m) None = None \<and> api_name m = None) \<and>
   (\<forall>p. protocol_name m = Inr p \<longrightarrow> p \<noteq> [])"
  by (cases "api_protocol m") (auto simp: protocol_name_def Let_def split: option.splits)

theorem protocol_name_error_iff_witness:
  "let m = \<lparr>api_address = ''0xb'', api_name = Some '' leading space'', api_protocol = None,
             api_expiry = 0, api_impliedApy = None, api_underlyingApy = None,
             api_pt_symbol = None, api_accounting_symbol = None, api_input_logo = None,
             api_underlying_logo = None, api_accounting_logo = None\<rparr>
   in protocol_name m = Inr ''Unknown'' \<and> ''Unknown'' \<noteq> [] \<and> \<not> (protocol_name m = Inl TypeError)"
  unfolding Let_def using protocol_name_error_iff by (simp add: protocol_name_def)


end
