(* ===== verification/Narrative.thy ===== *)
theory Narrative
  imports Types
begin

text \<open>
  The narrative generator of \<^verbatim>\<open>src/services/geminiService.ts\<close>.
  \<^verbatim>\<open>getMarketAnalysis\<close> asks a remote model for a description and a verdict and
  falls back to the local template \<^verbatim>\<open>getDefaultAnalysis\<close> on every failure. The
  remote call is outside the model: whether an API key is configured and what the call
  produced (\<open>gemini_reply\<close>) are arguments. The reply is what the code can observe:
  the call rejected; the response had no text (\<^verbatim>\<open>undefined\<close> or empty); the text
  did not parse as JSON; it parsed to \<^verbatim>\<open>null\<close> (reading a field then throws); or it
  parsed to a value whose \<^verbatim>\<open>description\<close> and \<^verbatim>\<open>aiVerdict\<close> fields may be
  absent. The prompt text only goes to the remote model and is not modelled. Korean text
  is written as its UTF-8 bytes.
\<close>

datatype gemini_reply =
    CallFailed
  | NoText
  | Unparsable string
  | ParsedNull
  | Parsed "string option" "string option"

definition getDefaultAnalysis :: "market_data \<Rightarrow> int \<Rightarrow> language \<Rightarrow> analysis_result" where
  "getDefaultAnalysis market score' language =
     (let spread = to_fixed2 (underlyingAPY market - impliedAPY market)
      in if language = Ko then
           \<lparr>description = protocol market @ [CHR 0xEC, CHR 0x9D, CHR 0x80] @ ''('' @ [CHR 0xEB, CHR 0x8A, CHR 0x94] @ '') '' @ symbol market @
                           '' '' @ [CHR 0xEC, CHR 0x9E, CHR 0x90, CHR 0xEC, CHR 0x82, CHR 0xB0, CHR 0xEC, CHR 0x9D, CHR 0x84] @ '' '' @ [CHR 0xED, CHR 0x8F, CHR 0xAC, CHR 0xED, CHR 0x95, CHR 0xA8, CHR 0xED, CHR 0x95, CHR 0xA9, CHR 0xEB, CHR 0x8B, CHR 0x88, CHR 0xEB, CHR 0x8B, CHR 0xA4] @ ''.'',
            aiVerdict = [CHR 0xEA, CHR 0xB3, CHR 0x84, CHR 0xEC, CHR 0x82, CHR 0xB0, CHR 0xEB, CHR 0x90, CHR 0x9C] @ '' '' @ [CHR 0xEC, CHR 0xA0, CHR 0x90, CHR 0xEC, CHR 0x88, CHR 0x98, CHR 0xEB, CHR 0x8A, CHR 0x94] @ '' '' @ js_int_string score' @
                        [CHR 0xEC, CHR 0xA0, CHR 0x90, CHR 0xEC, CHR 0x9E, CHR 0x85, CHR 0xEB, CHR 0x8B, CHR 0x88, CHR 0xEB, CHR 0x8B, CHR 0xA4] @ ''. '' @ [CHR 0xEA, CHR 0xB8, CHR 0xB0, CHR 0xEC, CHR 0xB4, CHR 0x88] @ '' APY'' @ [CHR 0xEC, CHR 0x99, CHR 0x80] @ '' '' @ [CHR 0xEB, CHR 0x82, CHR 0xB4, CHR 0xEC, CHR 0x9E, CHR 0xAC] @ '' APY'' @ [CHR 0xEC, CHR 0x9D, CHR 0x98] @ '' '' @ [CHR 0xEC, CHR 0xB0, CHR 0xA8, CHR 0xEC, CHR 0x9D, CHR 0xB4, CHR 0xEB, CHR 0x8A, CHR 0x94] @ '' '' @
                        spread @ ''%'' @ [CHR 0xEC, CHR 0x9E, CHR 0x85, CHR 0xEB, CHR 0x8B, CHR 0x88, CHR 0xEB, CHR 0x8B, CHR 0xA4] @ ''.''\<rparr>
         else
           \<lparr>description = protocol market @ '' involves '' @ symbol market @ '' assets.'',
            aiVerdict = ''Calculated score is '' @ js_int_string score' @
                        ''. The spread between Underlying and Implied APY is '' @ spread @ ''%.''\<rparr>)"

definition getMarketAnalysis ::
  "bool \<Rightarrow> gemini_reply \<Rightarrow> market_data \<Rightarrow> int \<Rightarrow> language \<Rightarrow> analysis_result" where
  "getMarketAnalysis hasApiKey reply market score' language =
     (if \<not> hasApiKey then getDefaultAnalysis market score' language
      else case reply of
        Parsed desc verdict \<Rightarrow>
          \<lparr>description =
             (case js_or desc None of
                Some d \<Rightarrow> d
              | None \<Rightarrow> ''Protocol for '' @ symbol market),
           aiVerdict =
             (case js_or verdict None of
                Some v \<Rightarrow> v
              | None \<Rightarrow> ''Score based on APY spread of '' @
                          to_fixed2 (underlyingAPY market - impliedAPY market) @ ''%.'')\<rparr>
      | _ \<Rightarrow> getDefaultAnalysis market score' language)"

fun reply_failed :: "gemini_reply \<Rightarrow> bool" where
  "reply_failed (Parsed _ _) = False"
| "reply_failed _ = True"

subsection \<open>Lemmas\<close>

lemma getDefaultAnalysis_nonempty:
  "description (getDefaultAnalysis m s l) \<noteq> [] \<and> aiVerdict (getDefaultAnalysis m s l) \<noteq> []"
  by (simp add: getDefaultAnalysis_def Let_def)

lemma js_or_None_Some: "js_or x None = Some v \<Longrightarrow> v \<noteq> []"
  by (cases x) (auto split: if_splits)

text \<open>C30. The narrative is never empty: whatever the remote call does, the card gets a
  non-empty description and a non-empty verdict, from the model's JSON when its fields
  are non-empty strings and from a local fallback otherwise.\<close>

theorem narrative_nonempty:
  "description (getMarketAnalysis k r m s l) \<noteq> [] \<and> aiVerdict (getMarketAnalysis k r m s l) \<noteq> []"
  using getDefaultAnalysis_nonempty [of m s l]
  by (auto simp: getMarketAnalysis_def split: gemini_reply.splits option.splits dest: js_or_None_Some)

text \<open>C31. Every failure (no API key, a rejected call, no text, unparsable JSON, a
  \<^verbatim>\<open>null\<close> reply) gives exactly the deterministic local fallback of the same shape,
  in the requested language.\<close>

theorem narrative_fallback:
  "\<not> k \<or> reply_failed r \<Longrightarrow> getMarketAnalysis k r m s l = getDefaultAnalysis m s l"
  by (cases r) (auto simp: getMarketAnalysis_def)

theorem narrative_fallback_witness:
  "let m = \<lparr>market_id = ''2'', name = ''Ethena USDe'', protocol = ''Ethena'', symbol = ''USDe'',
             expiry = 0, impliedAPY = 25, underlyingAPY = 15, historicalUnderlyingAPY = [],
             imageUrl = '''', marketUrl = '''', leverage = 8.5\<rparr>
   in (\<not> True \<or> reply_failed (Unparsable ''{oops'')) \<and>
      getMarketAnalysis True (Unparsable ''{oops'') m 5 En = getDefaultAnalysis m 5 En \<and>
      description (getDefaultAnalysis m 5 En) = ''Ethena involves USDe assets.''"
  unfolding Let_def using narrative_fallback [of True "Unparsable ''{oops''"]
  by (simp add: getDefaultAnalysis_def)

end
