(* ===== verification/Card.thy ===== *)
theory Card
  imports Scoring Narrative
begin

text \<open>
  The market card (\<^verbatim>\<open>src/components/MarketCard.tsx\<close>) and its score badge
  (\<^verbatim>\<open>src/components/ScoreBadge.tsx\<close>).

  The card keeps two pieces of React state, \<^verbatim>\<open>aiData\<close> and \<^verbatim>\<open>loadingAi\<close>,
  and an effect that re-runs whenever \<^verbatim>\<open>[market, scoring.score, language]\<close> change:
  it sets \<^verbatim>\<open>loadingAi\<close>, awaits \<^verbatim>\<open>getMarketAnalysis\<close>, then stores the result and
  clears \<^verbatim>\<open>loadingAi\<close>. Nothing cancels an earlier run. The model is a step relation
  on \<open>card_state\<close>: \<open>effect_run\<close> (the dependencies changed to \<open>p\<close>; since the
  app rebuilds every market object whenever it re-sorts, re-filters or changes language,
  \<open>p\<close> may even equal the old props) and \<open>resolve\<close>, a completion
  \<open>card_resolve\<close> (any request still in flight completes, in any order, with any
  reply of the remote model). \<open>in_flight\<close> lists the
  pending runs and \<open>aiData_for\<close> records which request the displayed narrative answers;
  both are bookkeeping of the model, not variables of the source.

  The spec asks the integrator to discard a response whose request no longer matches the
  displayed record; the code has no such check, and C33 shows what follows.
  \<open>ScoreBadge\<close> and \<open>render_card\<close> are what the badge and the card render from
  their props and state.
\<close>

record card_request =
  req_market :: market_data
  req_score :: int
  req_language :: language

record card_state =
  props :: card_request
  aiData :: "analysis_result option"
  loadingAi :: bool
  in_flight :: "card_request list"
  aiData_for :: "card_request option"

definition narrative_of :: "bool \<Rightarrow> gemini_reply \<Rightarrow> card_request \<Rightarrow> analysis_result" where
  "narrative_of hasApiKey reply r =
     getMarketAnalysis hasApiKey reply (req_market r) (req_score r) (req_language r)"

text \<open>The state right after mounting: the effect has run once for the first props.\<close>

definition card_mounted :: "card_request \<Rightarrow> card_state" where
  "card_mounted p = \<lparr>props = p, aiData = None, loadingAi = True, in_flight = [p], aiData_for = None\<rparr>"

text \<open>The end of one run of \<^verbatim>\<open>fetchAI\<close>: the awaited answer for a pending request
  \<open>r\<close> arrives, \<^verbatim>\<open>setAiData(data)\<close> and \<^verbatim>\<open>setLoadingAi(false)\<close>.\<close>

inductive card_resolve :: "bool \<Rightarrow> card_state \<Rightarrow> card_state \<Rightarrow> bool" where
  resolve: "r \<in> set (in_flight s) \<Longrightarrow>
    card_resolve k s (s\<lparr>aiData := Some (narrative_of k reply r), loadingAi := False,
                        in_flight := remove1 r (in_flight s), aiData_for := Some r\<rparr>)"

inductive card_step :: "bool \<Rightarrow> card_state \<Rightarrow> card_state \<Rightarrow> bool" where
  effect_run: "card_step k s (s\<lparr>props := p, loadingAi := True, in_flight := in_flight s @ [p]\<rparr>)"
| resolve: "card_resolve k s t \<Longrightarrow> card_step k s t"

inductive card_reachable :: "bool \<Rightarrow> card_request \<Rightarrow> card_state \<Rightarrow> bool" where
  mounted: "card_reachable k p (card_mounted p)"
| step: "card_reachable k p s \<Longrightarrow> card_step k s t \<Longrightarrow> card_reachable k p t"

definition settled :: "card_state \<Rightarrow> bool" where
  "settled s \<longleftrightarrow> \<not> loadingAi s \<and> in_flight s = []"

text \<open>What every reachable card state satisfies: the spinner is on only while a
  request is in flight, and whatever narrative is displayed is the answer of
  \<^verbatim>\<open>getMarketAnalysis\<close> to one of the requests the effect issued.\<close>

definition card_inv :: "bool \<Rightarrow> card_state \<Rightarrow> bool" where
  "card_inv k s \<longleftrightarrow>
     (loadingAi s \<longrightarrow> in_flight s \<noteq> []) \<and>
     (in_flight s = [] \<longrightarrow> aiData s \<noteq> None) \<and>
     (aiData s = None \<longleftrightarrow> aiData_for s = None) \<and>
     (\<forall>r. aiData_for s = Some r \<longrightarrow> (\<exists>reply. aiData s = Some (narrative_of k reply r)))"

subsection \<open>The score badge\<close>

definition badge_radius :: real where "badge_radius = 30"
definition badge_stroke :: real where "badge_stroke = 6"

definition normalizedRadius :: real where
  "normalizedRadius = badge_radius - badge_stroke * 2"

definition circumference :: real where
  "circumference = normalizedRadius * 2 * pi"

definition strokeDashoffset :: "int \<Rightarrow> real" where
  "strokeDashoffset s = circumference - (real_of_int s / 100) * circumference"

definition strokeColor :: "int \<Rightarrow> string" where
  "strokeColor s =
     (if s \<ge> 80 then ''#34d399'' else if s \<ge> 60 then ''#60a5fa''
      else if s \<ge> 40 then ''#facc15'' else ''#ef4444'')"

text \<open>What the badge renders: the SVG's size, the ring's radius and stroke width, the
  dash array and offset that draw the progress arc, its colour, the score printed in
  the middle and the tier label under it with the scorer's colour class.\<close>

record badge_view =
  bv_size :: real
  bv_ring_radius :: real
  bv_stroke_width :: real
  bv_dasharray :: "real \<times> real"
  bv_dashoffset :: real
  bv_stroke :: string
  bv_score_text :: string
  bv_tier :: string
  bv_color_class :: string

definition ScoreBadge :: "int \<Rightarrow> string \<Rightarrow> string \<Rightarrow> badge_view" where
  "ScoreBadge s tierLabel colorClass =
     \<lparr>bv_size = badge_radius * 2, bv_ring_radius = normalizedRadius,
      bv_stroke_width = badge_stroke, bv_dasharray = (circumference, circumference),
      bv_dashoffset = strokeDashoffset s, bv_stroke = strokeColor s,
      bv_score_text = js_int_string s, bv_tier = tierLabel, bv_color_class = colorClass\<rparr>"

subsection \<open>What the card derives for display\<close>

text \<open>The card recomputes the days left from its own \<^verbatim>\<open>new Date()\<close> at render time,
  separately from the scorer's.\<close>

definition card_days_left :: "market_data \<Rightarrow> timestamp \<Rightarrow> int" where
  "card_days_left market renderNow = days_between (expiry market) renderNow"

definition isPositiveSpread :: "market_data \<Rightarrow> bool" where
  "isPositiveSpread market \<longleftrightarrow> underlyingAPY market > impliedAPY market"

definition rising_badge_shown :: "scoring_result \<Rightarrow> bool" where
  "rising_badge_shown scoring \<longleftrightarrow> trendFactor (breakdown scoring) > 0"

definition verdict_highlighted :: "scoring_result \<Rightarrow> bool" where
  "verdict_highlighted scoring \<longleftrightarrow> score scoring \<ge> 60"

definition displayTier :: "language \<Rightarrow> scoring_result \<Rightarrow> string" where
  "displayTier language scoring = tier_display language (tier scoring)"

text \<open>What one card renders, read off its JSX top to bottom. The AI slots show a
  skeleton (\<open>Loading\<close>) while \<^verbatim>\<open>loadingAi\<close> is set; \<^verbatim>\<open>aiData?.x\<close>
  on a null \<^verbatim>\<open>aiData\<close> renders nothing, the empty text. The leverage is the
  number itself: its JavaScript printing is not modelled, nor is
  \<^verbatim>\<open>toLocaleDateString\<close> of the expiry.\<close>

datatype ai_slot = Loading | Shown string

record card_view =
  cv_leverage :: "real \<times> string"
  cv_image :: string
  cv_symbol :: string
  cv_protocol :: string
  cv_days :: string
  cv_badge :: badge_view
  cv_description :: ai_slot
  cv_implied :: string
  cv_underlying :: string
  cv_positive :: bool
  cv_spread :: string
  cv_chart :: "(nat \<times> real) list"
  cv_trend_label :: string
  cv_rising_badge :: "string option"
  cv_line_colour :: string
  cv_highlighted :: bool
  cv_analysis_label :: string
  cv_verdict :: ai_slot
  cv_trade :: "string \<times> string"

definition spread_text :: "market_data \<Rightarrow> string" where
  "spread_text market =
     (if isPositiveSpread market then ''+'' else '''') @
     to_fixed2 (underlyingAPY market - impliedAPY market) @ ''%''"

definition render_card ::
  "timestamp \<Rightarrow> market_data \<Rightarrow> scoring_result \<Rightarrow> language \<Rightarrow> card_state \<Rightarrow> card_view" where
  "render_card renderNow market scoring language s =
     (let t = card_text (ui_translations language)
      in \<lparr>cv_leverage = (leverage market, card_leverage t),
          cv_image = imageUrl market,
          cv_symbol = symbol market,
          cv_protocol = protocol market,
          cv_days = js_int_string (card_days_left market renderNow) @ '' '' @ daysLeft t,
          cv_badge = ScoreBadge (score scoring) (displayTier language scoring) (color scoring),
          cv_description = (if loadingAi s then Loading
                            else Shown (case aiData s of None \<Rightarrow> [] | Some a \<Rightarrow> description a)),
          cv_implied = to_fixed2 (impliedAPY market) @ ''%'',
          cv_underlying = to_fixed2 (underlyingAPY market) @ ''%'',
          cv_positive = isPositiveSpread market,
          cv_spread = spread_text market,
          cv_chart = enumerate 0 (historicalUnderlyingAPY market),
          cv_trend_label = trend7d t,
          cv_rising_badge = (if rising_badge_shown scoring then Some (risingTrend t) else None),
          cv_line_colour = (if rising_badge_shown scoring then ''#34d399'' else ''#ef4444''),
          cv_highlighted = verdict_highlighted scoring,
          cv_analysis_label = card_analysis t,
          cv_verdict = (if loadingAi s then Shown (generating t)
                        else Shown (case aiData s of None \<Rightarrow> [] | Some a \<Rightarrow> aiVerdict a)),
          cv_trade = (marketUrl market, trade t)\<rparr>)"

subsection \<open>Lemmas\<close>

lemma card_inv_mounted: "card_inv k (card_mounted p)"
  by (simp add: card_inv_def card_mounted_def)

lemma card_resolve_inv: "card_resolve k s t \<Longrightarrow> card_inv k s \<Longrightarrow> card_inv k t"
  by (induction rule: card_resolve.induct) (auto simp: card_inv_def)

lemma card_step_inv: "card_step k s t \<Longrightarrow> card_inv k s \<Longrightarrow> card_inv k t"
proof (induction rule: card_step.induct)
  case effect_run
  then show ?case by (simp add: card_inv_def)
next
  case resolve
  from resolve.hyps resolve.prems show ?case by (rule card_resolve_inv)
qed

lemma reachable_card_inv: "card_reachable k p s \<Longrightarrow> card_inv k s"
proof (induction rule: card_reachable.induct)
  case mounted
  show ?case by (rule card_inv_mounted)
next
  case step
  then show ?case by (blast intro: card_step_inv)
qed



lemma card_inv_settled:
  "card_inv k t \<Longrightarrow> in_flight t = [] \<Longrightarrow>
   settled t \<and> (\<exists>r reply. aiData t = Some (narrative_of k reply r))"
  by (auto simp: card_inv_def settled_def)


lemma card_resolve_enabled:
  "r \<in> set (in_flight s) \<Longrightarrow>
   card_resolve k s (s\<lparr>aiData := Some (narrative_of k reply r), loadingAi := False,
                       in_flight := remove1 r (in_flight s), aiData_for := Some r\<rparr>)"
  by (rule card_resolve.resolve)

lemma card_resolve_all:
  "in_flight s = xs \<Longrightarrow> xs \<noteq> [] \<Longrightarrow>
   \<exists>t. (card_resolve k)\<^sup>*\<^sup>* s t \<and> settled t \<and> props t = props s \<and>
       (\<exists>r reply. aiData t = Some (narrative_of k reply r))"
proof (induction xs arbitrary: s)
  case Nil
  then show ?case by simp
next
  case (Cons x xs)
  let ?s' = "s\<lparr>aiData := Some (narrative_of k reply x), loadingAi := False,
               in_flight := remove1 x (in_flight s), aiData_for := Some x\<rparr>"
  have step: "card_resolve k s ?s'"
    using Cons.prems(1) by (intro card_resolve_enabled) simp
  show ?case
  proof (cases "xs = []")
    case True
    with Cons.prems(1) step show ?thesis
      by (intro exI [of _ ?s']) (auto simp: settled_def)
  next
    case False
    from Cons.prems(1) have "in_flight ?s' = xs" by simp
    from Cons.IH [OF this False] obtain t where t:
      "(card_resolve k)\<^sup>*\<^sup>* ?s' t" "settled t" "props t = props ?s'"
      "\<exists>r reply. aiData t = Some (narrative_of k reply r)"
      by blast
    have "(card_resolve k)\<^sup>*\<^sup>* s t"
      by (rule converse_rtranclp_into_rtranclp [OF step t(1)])
    with t(2-4) show ?thesis by auto
  qed
qed

lemma circumference_pos: "0 < circumference"
  by (simp add: circumference_def normalizedRadius_def badge_radius_def badge_stroke_def)

subsection \<open>Properties of the card\<close>

text \<open>C32. In every state the card can reach, the spinner is on only while a request is
  in flight, and the narrative shown is the answer of \<^verbatim>\<open>getMarketAnalysis\<close> to one
  of the requests the effect issued.\<close>

theorem card_reachable_inv: "card_reachable k p s \<Longrightarrow> card_inv k s"
  by (rule reachable_card_inv)

theorem card_reachable_inv_witness:
  "let p = \<lparr>req_market = \<lparr>market_id = ''1'', name = ''n'', protocol = ''p'', symbol = ''s'',
                          expiry = 0, impliedAPY = 1, underlyingAPY = 2,
                          historicalUnderlyingAPY = [], imageUrl = '''', marketUrl = '''',
                          leverage = 1\<rparr>,
             req_score = 50, req_language = En\<rparr>
   in card_reachable False p (card_mounted p) \<and> card_inv False (card_mounted p)"
  unfolding Let_def using card_reachable.mounted card_reachable_inv by blast

text \<open>C33. Without the identity check the spec asks for, the card can settle on a stale
  narrative: mounted for request \<open>p1\<close>, its props change to \<open>p2\<close> (another language,
  say), the answer for \<open>p2\<close> arrives first and the late answer for \<open>p1\<close> overwrites
  it. Nothing is in flight and the spinner is off, yet the text answers \<open>p1\<close>.\<close>

theorem stale_narrative_reachable:
  assumes "p1 \<noteq> p2"
  shows "\<exists>s. card_reachable k p1 s \<and> settled s \<and> props s = p2 \<and> aiData_for s = Some p1"
proof -
  let ?s1 = "(card_mounted p1)\<lparr>props := p2, loadingAi := True,
                                 in_flight := in_flight (card_mounted p1) @ [p2]\<rparr>"
  let ?s2 = "?s1\<lparr>aiData := Some (narrative_of k CallFailed p2), loadingAi := False,
                 in_flight := remove1 p2 (in_flight ?s1), aiData_for := Some p2\<rparr>"
  let ?s3 = "?s2\<lparr>aiData := Some (narrative_of k CallFailed p1), loadingAi := False,
                 in_flight := remove1 p1 (in_flight ?s2), aiData_for := Some p1\<rparr>"
  have r1: "card_reachable k p1 ?s1"
    by (rule card_reachable.step [OF card_reachable.mounted card_step.effect_run])
  have p2: "p2 \<in> set (in_flight ?s1)" by (simp add: card_mounted_def)
  have r2: "card_reachable k p1 ?s2"
    by (rule card_reachable.step [OF r1 card_step.resolve [OF card_resolve.resolve [OF p2]]])
  have p1: "p1 \<in> set (in_flight ?s2)" using assms by (simp add: card_mounted_def)
  have r3: "card_reachable k p1 ?s3"
    by (rule card_reachable.step [OF r2 card_step.resolve [OF card_resolve.resolve [OF p1]]])
  moreover have "settled ?s3 \<and> props ?s3 = p2 \<and> aiData_for ?s3 = Some p1"
    using assms by (simp add: settled_def card_mounted_def)
  ultimately show ?thesis by blast
qed

theorem stale_narrative_reachable_witness:
  "let m = \<lparr>market_id = ''2'', name = ''Ethena USDe'', protocol = ''Ethena'', symbol = ''USDe'',
             expiry = 0, impliedAPY = 25, underlyingAPY = 15, historicalUnderlyingAPY = [],
             imageUrl = '''', marketUrl = '''', leverage = 8.5\<rparr>;
       p1 = \<lparr>req_market = m, req_score = 5, req_language = En\<rparr>;
       p2 = \<lparr>req_market = m, req_score = 5, req_language = Ko\<rparr>
   in p1 \<noteq> p2 \<and>
      (\<exists>s. card_reachable True p1 s \<and> settled s \<and> props s = p2 \<and> aiData_for s = Some p1)"
  unfolding Let_def using stale_narrative_reachable by simp

text \<open>The badge's ring colour changes exactly where the tier changes: two scores
  get the same colour if and only if they get the same tier.\<close>

lemma badge_color_matches_tier:
  "strokeColor s = strokeColor s' \<longleftrightarrow> fst (classify s) = fst (classify s')"
  by (simp add: strokeColor_def classify_def)

text \<open>The badge's dash offset for any computed score lies between 0 (full ring at
  100) and the circumference (empty ring at 0).\<close>

lemma badge_offset_bounds:
  "0 \<le> strokeDashoffset (score (calculateInvestmentScore m now l)) \<and>
   strokeDashoffset (score (calculateInvestmentScore m now l)) \<le> circumference"
proof -
  let ?s = "score (calculateInvestmentScore m now l)"
  have "0 \<le> ?s" "?s \<le> 100" using score_bounds by blast+
  then have "0 \<le> real_of_int ?s / 100" "real_of_int ?s / 100 \<le> 1" by simp_all
  with circumference_pos show ?thesis
    by (simp add: strokeDashoffset_def mult_le_cancel_right1 mult_left_le_one_le)
qed

text \<open>C36. The scorer and the card read the clock separately (\<^verbatim>\<open>new Date()\<close> at
  line 13 of the scorer, and again at line 31 of the card, on every render of the card),
  and the app's memo keeps the score from its last recomputation. The card then prints
  fewer than 30 days left for a market whose score took the healthy-maturity bonus
  exactly when the 29-day mark before expiry falls after the scorer's reading \<open>now\<close>
  and no later than the card's reading \<open>rn\<close>.\<close>

theorem card_days_disagree:
  "(maturityFactor (breakdown (calculateInvestmentScore m now l)) = 5 \<and> card_days_left m rn < 30) \<longleftrightarrow>
   (29 * ms_per_day < expiry m - now \<and> expiry m - rn \<le> 29 * ms_per_day)"
  using days_between_lt_iff [of "expiry m" now 30] days_between_lt_iff [of "expiry m" rn 30]
  by (auto simp: score_simps maturity_contribution_def card_days_left_def simp del: ms_per_day_val)

text \<open>The verdict box is highlighted exactly for the tiers Buy and Strong Buy.\<close>

lemma verdict_highlight_tier:
  "verdict_highlighted (calculateInvestmentScore m now l) \<longleftrightarrow>
     Buy \<le> tier (calculateInvestmentScore m now l)"
  by (simp add: verdict_highlighted_def score_simps classify_def less_eq_tier_def)

text \<open>C34. On rendered cards the badge and the verdict box agree with the scorer's
  tier: two cards' rings have the same colour exactly when their markets have the same
  tier, the badge's label is the tier's name in the card's language, and the verdict box
  is highlighted exactly for Buy and Strong Buy.\<close>

theorem card_badge_agrees_with_tier:
  "let sc = calculateInvestmentScore m now l; sc' = calculateInvestmentScore m' now' l';
       v = render_card rn m sc l s; v' = render_card rn' m' sc' l' s'
   in (bv_stroke (cv_badge v) = bv_stroke (cv_badge v') \<longleftrightarrow> tier sc = tier sc') \<and>
      bv_tier (cv_badge v) = tier_display l (tier sc) \<and>
      (cv_highlighted v \<longleftrightarrow> Buy \<le> tier sc)"
proof -
  let ?sc = "calculateInvestmentScore m now l" and ?sc' = "calculateInvestmentScore m' now' l'"
  have "strokeColor (score ?sc) = strokeColor (score ?sc') \<longleftrightarrow> tier ?sc = tier ?sc'"
    by (simp only: badge_color_matches_tier calculateInvestmentScore_fields)
  with verdict_highlight_tier [of m now l] show ?thesis
    by (simp add: render_card_def ScoreBadge_def displayTier_def Let_def)
qed

text \<open>C35. A card always settles: from every state it can reach, the completions of
  the runs in flight alone, with no new effect run, lead to a state whose spinner is off,
  with nothing in flight, the same props, and a narrative that is an answer of
  \<^verbatim>\<open>getMarketAnalysis\<close> on display.\<close>

theorem card_settles:
  assumes "card_reachable k p s"
  shows "\<exists>t. (card_resolve k)\<^sup>*\<^sup>* s t \<and> settled t \<and> props t = props s \<and>
             (\<exists>r reply. aiData t = Some (narrative_of k reply r))"
proof (cases "in_flight s = []")
  case True
  with reachable_card_inv [OF assms] have "settled s \<and> (\<exists>r reply. aiData s = Some (narrative_of k reply r))"
    by (rule card_inv_settled)
  then show ?thesis by blast
next
  case False
  then show ?thesis by (rule card_resolve_all [OF refl])
qed

theorem card_settles_witness:
  "let p = \<lparr>req_market = \<lparr>market_id = ''1'', name = ''n'', protocol = ''p'', symbol = ''s'',
                          expiry = 0, impliedAPY = 1, underlyingAPY = 2,
                          historicalUnderlyingAPY = [], imageUrl = '''', marketUrl = '''',
                          leverage = 1\<rparr>,
             req_score = 50, req_language = En\<rparr>
   in card_reachable True p (card_mounted p) \<and>
      (\<exists>t. (card_resolve True)\<^sup>*\<^sup>* (card_mounted p) t \<and> settled t \<and>
           props t = props (card_mounted p) \<and>
           (\<exists>r reply. aiData t = Some (narrative_of True reply r)))"
  unfolding Let_def using card_reachable.mounted card_settles by blast



end
