(* ===== verification/App.thy ===== *)
theory App
  imports MockData
begin

text \<open>
  The app component (\<^verbatim>\<open>src/App.tsx\<close>) as a state machine. Its three
  \<^verbatim>\<open>useState\<close> hooks and the cache of its \<^verbatim>\<open>useMemo\<close> are the record
  \<open>app_state\<close>; the handlers wired to its controls are the events of
  \<open>app_event\<close>, each a setter call (\<open>app_event_step\<close>); a render
  (\<open>app_render\<close>) re-runs the memoised processing only when one of its dependencies
  \<^verbatim>\<open>[sortOrder, filterTier, language]\<close> changed, reading the clock anew when it does.
  React re-renders after every handler, so a step of the app is an event followed by a
  render (\<open>app_step\<close>), and \<open>app_reachable\<close> are the states after the first render
  and any sequence of steps. \<open>app_view\<close> is the branch the page shows: the grid of
  cards or the empty state with its message, its Clear Filters button and the event the
  button's \<^verbatim>\<open>onClick\<close> fires.
\<close>

datatype app_event =
    ToggleLanguage
  | SetFilterTier filter_option
  | SetSortOrder sort_option

record app_state =
  sortOrder :: sort_option
  filterTier :: filter_option
  app_language :: language
  memo_deps :: "(sort_option \<times> filter_option \<times> language) option"
  memo_value :: "(market_data \<times> scoring_result) list"

text \<open>Before the first render the memo holds nothing: \<open>memo_deps = None\<close>.\<close>

definition app_initial :: app_state where
  "app_initial = \<lparr>sortOrder = ScoreDesc, filterTier = FilterAll, app_language = En,
                  memo_deps = None, memo_value = []\<rparr>"

fun toggle_language :: "language \<Rightarrow> language" where
  "toggle_language En = Ko"
| "toggle_language Ko = En"

fun app_event_step :: "app_event \<Rightarrow> app_state \<Rightarrow> app_state" where
  "app_event_step ToggleLanguage s = s\<lparr>app_language := toggle_language (app_language s)\<rparr>"
| "app_event_step (SetFilterTier f) s = s\<lparr>filterTier := f\<rparr>"
| "app_event_step (SetSortOrder so) s = s\<lparr>sortOrder := so\<rparr>"

definition memo_deps_of :: "app_state \<Rightarrow> sort_option \<times> filter_option \<times> language" where
  "memo_deps_of s = (sortOrder s, filterTier s, app_language s)"

definition app_render :: "timestamp \<Rightarrow> (nat \<Rightarrow> timestamp) \<Rightarrow> app_state \<Rightarrow> app_state" where
  "app_render t0 clock s =
     (if memo_deps s = Some (memo_deps_of s) then s
      else s\<lparr>memo_deps := Some (memo_deps_of s),
             memo_value := processedMarkets t0 clock (filterTier s) (sortOrder s) (app_language s)\<rparr>)"

inductive app_step :: "timestamp \<Rightarrow> app_state \<Rightarrow> app_state \<Rightarrow> bool" where
  event: "app_step t0 s (app_render t0 clock (app_event_step e s))"

inductive app_reachable :: "timestamp \<Rightarrow> app_state \<Rightarrow> bool" where
  first_render: "app_reachable t0 (app_render t0 clock app_initial)"
| step: "app_reachable t0 s \<Longrightarrow> app_step t0 s s' \<Longrightarrow> app_reachable t0 s'"

text \<open>The body of the page: the grid of cards, or the empty state with its message and
  the label of its Clear Filters button.\<close>

datatype app_view =
    MarketGrid "(market_data \<times> scoring_result) list"
  | NoMarkets string string app_event

definition app_view :: "app_state \<Rightarrow> app_view" where
  "app_view s =
     (let t = ui_translations (app_language s)
      in if length (memo_value s) > 0 then MarketGrid (memo_value s)
         else NoMarkets (noMarkets t) (clearFilters t) (SetFilterTier FilterAll))"

subsection \<open>The rest of the page\<close>

definition language_button_label :: "language \<Rightarrow> string" where
  "language_button_label language =
     (if language = En
      then [CHR 0xF0, CHR 0x9F, CHR 0x87, CHR 0xBA, CHR 0xF0, CHR 0x9F, CHR 0x87, CHR 0xB8] @ '' EN''
      else [CHR 0xF0, CHR 0x9F, CHR 0x87, CHR 0xB0, CHR 0xF0, CHR 0x9F, CHR 0x87, CHR 0xB7] @ '' KO'')"

text \<open>The score guide: three bands, each with its range, tier and description.\<close>

definition score_guide :: "language \<Rightarrow> (int \<times> int \<times> tier \<times> string) list" where
  "score_guide language =
     (let d = tierDescs (ui_translations language)
      in [(80, 100, StrongBuy, strongBuy d), (60, 79, Buy, buy d), (0, 59, Avoid, avoid d)])"

definition guide_label :: "language \<Rightarrow> int \<times> int \<times> tier \<times> string \<Rightarrow> string" where
  "guide_label language band =
     (case band of (lo, hi, tr, _) \<Rightarrow>
        js_int_string lo @ '' - '' @ js_int_string hi @ '' ('' @ tier_display language tr @ '')'')"

text \<open>The tier a reader of the guide gives a score: that of the first band holding it.\<close>

definition guide_tier :: "int \<Rightarrow> tier option" where
  "guide_tier s =
     map_option (\<lambda>(_, _, tr, _). tr) (find (\<lambda>(lo, hi, _, _). lo \<le> s \<and> s \<le> hi) (score_guide En))"

text \<open>The filter buttons and the sort options, each with the value its handler sets and
  whether it is shown as selected.\<close>

definition filter_buttons :: "language \<Rightarrow> filter_option \<Rightarrow> (string \<times> filter_option \<times> bool) list" where
  "filter_buttons language selected =
     map (\<lambda>(label, f). (label, f, selected = f))
       ((filterAll (ui_translations language), FilterAll) #
        map (\<lambda>tr. (tier_display language tr, FilterTier tr)) [StrongBuy, Buy, Hold, Avoid])"

definition sort_select :: "language \<Rightarrow> sort_option \<Rightarrow> (string \<times> sort_option \<times> bool) list" where
  "sort_select language selected =
     map (\<lambda>(label, so). (label, so, selected = so))
       [(sortHigh (ui_translations language), ScoreDesc), (sortLow (ui_translations language), ScoreAsc)]"

definition active_heading :: "language \<Rightarrow> nat \<Rightarrow> string" where
  "active_heading language n =
     activeOpp (ui_translations language) @ '' ('' @ js_int_string (int n) @ '')''"

record app_page =
  page_title :: string
  page_language_button :: string
  page_official_link :: string
  page_criteria_title :: string
  page_criteria_desc :: string
  page_criteria :: "string list"
  page_guide :: "(string \<times> string) list"
  page_heading :: string
  page_filters :: "(string \<times> filter_option \<times> bool) list"
  page_sort :: "(string \<times> sort_option \<times> bool) list"
  page_body :: app_view
  page_disclaimer :: string

definition render_page :: "app_state \<Rightarrow> app_page" where
  "render_page s =
     (let language = app_language s; t = ui_translations language
      in \<lparr>page_title = appTitle t,
          page_language_button = language_button_label language,
          page_official_link = officialApp t @ [CHR 0x20, CHR 0xE2, CHR 0x86, CHR 0x97],
          page_criteria_title = scoreCriteriaTitle t,
          page_criteria_desc = scoreCriteriaDesc t,
          page_criteria = criteria t,
          page_guide = map (\<lambda>band. (guide_label language band, snd (snd (snd band))))
                         (score_guide language),
          page_heading = active_heading language (length (memo_value s)),
          page_filters = filter_buttons language (filterTier s),
          page_sort = sort_select language (sortOrder s),
          page_body = app_view s,
          page_disclaimer = disclaimer t\<rparr>)"

text \<open>The cache is well formed when what it holds is the processing of the
  dependencies it was computed for, at some clock.\<close>

definition memo_ok :: "timestamp \<Rightarrow> app_state \<Rightarrow> bool" where
  "memo_ok t0 s \<longleftrightarrow>
     (\<forall>so f l. memo_deps s = Some (so, f, l) \<longrightarrow>
        (\<exists>clock. memo_value s = processedMarkets t0 clock f so l))"

lemma memo_ok_event [simp]: "memo_ok t0 (app_event_step e s) = memo_ok t0 s"
  by (cases e) (simp_all add: memo_ok_def)

lemma memo_ok_render: "memo_ok t0 s \<Longrightarrow> memo_ok t0 (app_render t0 clock s)"
  by (auto simp: memo_ok_def app_render_def memo_deps_of_def)

lemma memo_deps_render [simp]: "memo_deps (app_render t0 clock s) = Some (memo_deps_of (app_render t0 clock s))"
  by (simp add: app_render_def memo_deps_of_def)

lemma app_reachable_memo_ok: "app_reachable t0 s \<Longrightarrow> memo_ok t0 s"
proof (induction rule: app_reachable.induct)
  case first_render
  show ?case by (rule memo_ok_render) (simp add: memo_ok_def app_initial_def)
next
  case step
  from step.hyps(2) step.IH show ?case
    by (cases rule: app_step.cases) (simp add: memo_ok_render)
qed

lemma app_reachable_deps: "app_reachable t0 s \<Longrightarrow> memo_deps s = Some (memo_deps_of s)"
  by (cases rule: app_reachable.cases) (auto elim: app_step.cases)

lemma app_reachable_memo:
  "app_reachable t0 s \<Longrightarrow>
   \<exists>clock. memo_value s = processedMarkets t0 clock (filterTier s) (sortOrder s) (app_language s)"
  using app_reachable_memo_ok [of t0 s] app_reachable_deps [of t0 s]
  by (simp add: memo_ok_def memo_deps_of_def)

text \<open>C7. What the grid shows is always the processing of the current controls, and
  only a control recomputes it: in every reachable state the memo was computed for the
  current sort order, tier filter and language, at some reading of the clock, and a
  render with no change of those leaves the state as it is, whatever the clock says.\<close>

theorem app_memo_in_sync:
  assumes "app_reachable t0 s"
  shows "(\<exists>clock. memo_value s =
            processedMarkets t0 clock (filterTier s) (sortOrder s) (app_language s)) \<and>
         app_render t0 clock' s = s"
  using app_reachable_memo [OF assms] app_reachable_deps [OF assms]
  by (simp add: app_render_def)

theorem app_memo_in_sync_witness:
  "let s0 = app_render 0 (\<lambda>_. 0) app_initial;
       s1 = app_render 0 (\<lambda>_. 5) (app_event_step ToggleLanguage s0)
   in app_reachable 0 s1 \<and> app_language s1 = Ko \<and>
      (\<exists>clock. memo_value s1 = processedMarkets 0 clock (filterTier s1) (sortOrder s1) Ko) \<and>
      app_render 0 (\<lambda>_. 9) s1 = s1"
proof -
  let ?s0 = "app_render 0 (\<lambda>_. 0) app_initial"
  let ?s1 = "app_render 0 (\<lambda>_. 5) (app_event_step ToggleLanguage ?s0)"
  have r: "app_reachable 0 ?s1"
    by (rule app_reachable.step [OF app_reachable.first_render app_step.event])
  have l: "app_language ?s1 = Ko"
    by (simp add: app_render_def app_initial_def)
  from app_memo_in_sync [OF r, where clock' = "\<lambda>_. 9"] l r show ?thesis by (simp add: Let_def)
qed

text \<open>C13. The empty state can always be left: in every reachable state that shows
  "No markets match the selected filter", firing the event of its Clear Filters button
  and re-rendering, at any clock reading, shows a grid holding each of the five mock
  markets exactly once.\<close>

theorem clear_filters_leaves_empty_state:
  assumes "app_reachable t0 s" and "app_view s = NoMarkets msg label onClick"
  shows "\<exists>cards. app_view (app_render t0 clock (app_event_step onClick s)) =
                   MarketGrid cards \<and> mset (map fst cards) = mset (MOCK_MARKETS t0)"
proof -
  from assms(2) have onClick: "onClick = SetFilterTier FilterAll"
    by (simp add: app_view_def Let_def split: if_splits)
  let ?s = "app_render t0 clock (app_event_step (SetFilterTier FilterAll) s)"
  have "app_reachable t0 ?s"
    using assms(1) by (rule app_reachable.step) (rule app_step.event)
  then obtain c where c: "memo_value ?s = processedMarkets t0 c FilterAll (sortOrder ?s) (app_language ?s)"
    using app_reachable_memo by (fastforce simp: app_render_def)
  then have m: "mset (map fst (memo_value ?s)) = mset (MOCK_MARKETS t0)"
    by (simp only: processedMarkets_def mset_map_fst_all)
  then have "memo_value ?s \<noteq> []"
    by (auto simp: MOCK_MARKETS_def)
  with m onClick show ?thesis by (simp add: app_view_def Let_def)
qed

theorem clear_filters_leaves_empty_state_witness:
  "let s0 = app_render 0 (\<lambda>_. 0) app_initial;
       s1 = app_render 0 (\<lambda>_. 0) (app_event_step (SetFilterTier (FilterTier Hold)) s0);
       s2 = app_render 0 (\<lambda>_. 0) (app_event_step (SetFilterTier FilterAll) s1)
   in app_reachable 0 s1 \<and>
      app_view s1 = NoMarkets ''No markets match the selected filter.'' ''Clear Filters''
                      (SetFilterTier FilterAll) \<and>
      (\<exists>cards. app_view s2 = MarketGrid cards \<and> mset (map fst cards) = mset (MOCK_MARKETS 0))"
proof -
  let ?s0 = "app_render 0 (\<lambda>_. 0) app_initial"
  let ?s1 = "app_render 0 (\<lambda>_. 0) (app_event_step (SetFilterTier (FilterTier Hold)) ?s0)"
  have r: "app_reachable 0 ?s1"
    by (rule app_reachable.step [OF app_reachable.first_render app_step.event])
  have "memo_value ?s1 = processedMarkets 0 (\<lambda>_. 0) (FilterTier Hold) ScoreDesc En"
    by (simp add: app_render_def app_initial_def memo_deps_of_def)
  also have "\<dots> = []"
    using mock_tiers [of 0 0] by (simp add: processedMarkets_form keep_item_def)
  finally have e: "app_view ?s1 = NoMarkets ''No markets match the selected filter.'' ''Clear Filters''
                                   (SetFilterTier FilterAll)"
    by (simp add: app_view_def app_render_def app_initial_def ui_en_def)
  from clear_filters_leaves_empty_state [OF r e, where clock = "\<lambda>_. 0"] r e
  show ?thesis by (simp add: Let_def)
qed

text \<open>C17. The score guide on the page disagrees with the scorer exactly on the Hold
  band: every score from 0 to 100 lies in one of the guide's bands, and the guide's tier
  is the scorer's tier for every score except those from 40 to 59, which the guide
  labels Avoid and the scorer rates Hold.\<close>

theorem score_guide_omits_hold:
  "0 \<le> s \<Longrightarrow> s \<le> 100 \<Longrightarrow>
   guide_tier s \<noteq> None \<and> (guide_tier s = Some (fst (classify s)) \<longleftrightarrow> \<not> (40 \<le> s \<and> s < 60))"
  by (auto simp: guide_tier_def score_guide_def classify_def Let_def)

theorem score_guide_omits_hold_witness:
  "(0::int) \<le> 50 \<and> (50::int) \<le> 100 \<and> guide_tier 50 \<noteq> None \<and>
   guide_tier 50 \<noteq> Some (fst (classify 50))"
proof -
  have "guide_tier 50 \<noteq> None \<and>
        (guide_tier 50 = Some (fst (classify 50)) \<longleftrightarrow> \<not> (40 \<le> (50::int) \<and> (50::int) < 60))"
    by (rule score_guide_omits_hold) simp_all
  then show ?thesis by simp
qed

text \<open>The guide describes Avoid as "Negative Spread or <30 Days", but the short-term mock
  market, 15 days from expiry, is rated Buy.\<close>

lemma avoid_desc_contradicted:
  assumes "t0 \<le> now" and "now < t0 + ms_per_day"
  shows "days_between (expiry (mock_rsETH t0)) now < 30 \<and>
         tier (calculateInvestmentScore (mock_rsETH t0) now l) = Buy \<and>
         avoid (tierDescs (ui_translations En)) = ''Negative Spread or <30 Days''"
  using mock_days [OF assms] mock_tiers [OF assms] by (simp add: ui_en_def)

end
