(* ===== verification/Spec2Isabelle.thy ===== *)
theory Spec2Isabelle
  imports Provider Card App
begin

text \<open>
  \<^bold>\<open>Pendle YT Analyzer: a verification library.\<close>

  The program is a client-side dashboard that ranks yield-token markets by a heuristic
  score. Its parts and how they interact: the app (\<^verbatim>\<open>src/App.tsx\<close>) takes a list
  of markets, calls the scorer on each, filters by tier and sorts by score; each card
  (\<^verbatim>\<open>src/components/MarketCard.tsx\<close>) shows one scored market and asks the
  narrative generator (\<^verbatim>\<open>src/services/geminiService.ts\<close>) for text, asynchronously;
  the badge (\<^verbatim>\<open>src/components/ScoreBadge.tsx\<close>) draws the score. The market data
  provider (\<^verbatim>\<open>src/services/pendleApi.ts\<close>) builds markets from the Pendle API, but
  the app never calls it: it displays the mock markets of
  \<^verbatim>\<open>src/services/mockData.ts\<close>.

  \<^bold>\<open>Theories.\<close> Leaf first; each opens with a text saying what it holds.
  \<^item> \<open>Prelude\<close>: the JavaScript builtins the code calls, as exact functions
    (\<^verbatim>\<open>Math.round\<close> as \<open>js_round\<close>, the \<^verbatim>\<open>Math.ceil\<close> day count as
    \<open>days_between\<close>, \<^verbatim>\<open>toFixed(2)\<close> as \<open>to_fixed2\<close>, integer printing as
    \<open>js_int_string\<close>, \<^verbatim>\<open>||\<close> on strings as \<open>js_or\<close>), their lemmas, and the
    collections \<open>score_simps\<close> (effect of each scorer block) and \<open>eval_simps\<close>
    (definitions unfolded to evaluate on concrete markets).
  \<^item> \<open>Types\<close> (\<^verbatim>\<open>src/types.ts\<close>, option types of \<^verbatim>\<open>App.tsx\<close>): records
    \<open>market_data\<close>, \<open>breakdown\<close>, \<open>scoring_result\<close>, \<open>analysis_result\<close>;
    datatypes \<open>language\<close>, \<open>tier\<close> (a \<open>linorder\<close> instance, Avoid lowest),
    \<open>sort_option\<close>, \<open>filter_option\<close>.
  \<^item> \<open>Translations\<close> (\<^verbatim>\<open>src/services/translations.ts\<close>): the whole table
    in both languages: the \<^verbatim>\<open>logic\<close> labels the scorer reads, the tier names, and
    the page and card strings (\<open>ui_strings\<close>, \<open>ui_translations\<close>).
  \<^item> \<open>Scoring\<close> (\<^verbatim>\<open>calculateInvestmentScore\<close>,
    \<^verbatim>\<open>src/services/scoringLogic.ts\<close>): the source's running score, breakdown and
    \<^verbatim>\<open>isRising\<close> are the record \<open>score_acc\<close>; one function per block
    (\<open>spread_step\<close>, \<open>trend_step\<close>, \<open>maturity_step\<close>) composed in the
    source's order, then \<open>clamp_score\<close>, \<open>classify\<close> (tier and colour) and
    \<open>analysis_text\<close>. The time \<open>now\<close> is a parameter: the one
    \<^verbatim>\<open>new Date()\<close> of a call. Beside it, an abstract specification, the spec's
    formula contribution by contribution (\<open>spread_contribution\<close>,
    \<open>trend_contribution\<close>, \<open>maturity_contribution\<close>, \<open>spec_score\<close>,
    \<open>spec_tier\<close>).
  \<^item> \<open>Processing\<close> (the \<^verbatim>\<open>useMemo\<close> of \<^verbatim>\<open>App.tsx\<close>):
    \<open>processMarkets\<close> = \<open>score_all\<close>, \<^verbatim>\<open>filter\<close> with \<open>keep_item\<close>, and the
    builtin sort with the source's comparator \<open>compare_items\<close>. The builtin is the
    stable insertion sort \<open>js_sort\<close> (ECMAScript requires stability, and for a
    consistent comparator all stable sorts agree). Each scorer call reads its own clock:
    \<open>clock i\<close> for the \<open>i\<close>-th market.
  \<^item> \<open>MockData\<close> (\<^verbatim>\<open>src/services/mockData.ts\<close>): the five mock markets, with
    expiries \<open>addDays t0 n\<close> from the module-load instant \<open>t0\<close>, and
    \<open>processedMarkets\<close>, what \<^verbatim>\<open>App\<close> renders.
  \<^item> \<open>Provider\<close> (\<^verbatim>\<open>fetchPendleMarkets\<close>): each chain's answer is an input
    (\<open>chain_response\<close>); per-market mapping \<open>map_api_market\<close> with its
    \<open>TypeError\<close> path as an \<open>Inl\<close>, \<open>map_markets\<close> aborting at the first throw,
    \<open>fetch_chain\<close> catching everything, the validity filter and the mock fallback.
    \<^verbatim>\<open>Date.now()\<close> and the \<^verbatim>\<open>Math.random()\<close> draws are inputs.
  \<^item> \<open>Narrative\<close> (\<^verbatim>\<open>getMarketAnalysis\<close>, \<^verbatim>\<open>getDefaultAnalysis\<close>): the
    remote call's observable outcome is the input \<open>gemini_reply\<close>.
  \<^item> \<open>Card\<close> (\<^verbatim>\<open>MarketCard\<close>, \<^verbatim>\<open>ScoreBadge\<close>): the card's React state and
    effect as the inductive step relation \<open>card_step\<close> (effect runs and resolutions
    in any order) with its reachable states \<open>card_reachable\<close>; the completion of one run,
    \<open>card_resolve\<close>, on its own; the badge (\<open>ScoreBadge\<close>) and the card's content
    (\<open>render_card\<close>).
  \<^item> \<open>App\<close> (\<^verbatim>\<open>App\<close> in \<^verbatim>\<open>src/App.tsx\<close>): the three
    \<^verbatim>\<open>useState\<close> hooks and the \<^verbatim>\<open>useMemo\<close> cache as \<open>app_state\<close>; every
    handler (language toggle, filter buttons, Clear Filters, sort select) as an
    \<open>app_event\<close> applied by \<open>app_event_step\<close>; \<open>app_render\<close> recomputes the memo,
    at a fresh clock, only when \<^verbatim>\<open>[sortOrder, filterTier, language]\<close> changed; a
    step is a handler then a render (\<open>app_step\<close>, \<open>app_reachable\<close>);
    \<open>render_page\<close> is the page's content, with the score guide and the grid or
    empty state (\<open>app_view\<close>).

  \<^bold>\<open>What is proved\<close> (claims C1 to C38, each after a text naming it).
  Scoring: refinement of the spec's score (C1) and breakdown (C2); bounds \<open>[0, 100]\<close>
  (C3); the tier table (C4); the accumulator invariant, score = 50 + breakdown, kept by
  every block (C5); monotonicity in the spread (C6);
  the exact millisecond boundary of the maturity penalty (C8); the trend wording (C9);
  language independence (C10); a flat history is neutral and worded as falling (C23).
  Processing: the comparator sort is \<open>sort_key\<close> (C11), hence tier filtering (C12),
  order (C14), stable permutation (C15), language independence of the order (C16).
  App: the memo always holds the processing of the current controls and only a control
  recomputes it (C7, by rule induction over \<open>app_reachable\<close>); the empty state is
  always left by its Clear Filters button, to a grid of all five markets (C13); the
  page's score guide agrees with the scorer except on the Hold band 40 to 59 (C17).
  Mock data: the spec's scenarios A, B, C (C18 to C20), a Strong Buy below the ideal
  spread (C21), the app's concrete order (C22). Provider: leverage in \<open>[1, 50]\<close>, the
  cap of 50 (not the comment's 100) reached within seven days of expiry (C24), a
  non-empty valid result whatever the chains answer (C25), isolation of a failed chain
  (C26), one unnamed market drops its chain (C27), the synthetic trend is noise-driven
  (C28), the exact throwing condition (C29), every returned market has seven history
  points and non-negative APYs (C38). Narrative: never empty (C30), every failure gives
  the fallback (C31). Card: its invariant (C32), a reachable stale narrative, since the
  code lacks the identity check the spec asks for (C33), on rendered cards the badge
  colour, badge label and verdict highlight agree with the tier (C34), the card always
  settles by completions alone (C35, liveness), the exact window in which the card's
  own clock reading prints fewer than 30 days for a score that took the 30-day bonus
  (C36), every sequence of completions is finite and ends settled with an answer shown
  (C37, termination and total correctness: \<open>card_resolve\<close> is well-founded,
  measured by the number of runs in flight, and a state with no completion left is
  settled by the invariant).

  \<^bold>\<open>Modelling choices and bounds.\<close> JavaScript numbers are IEEE doubles; the model
  computes with exact reals, so a result differs from the program's only where a double
  rounding lands exactly on a threshold (a spread of 3, a half-way score, a day
  boundary). The day count divides an integral millisecond difference by 86400000, which
  doubles do exactly enough that its ceiling is the exact one. \<^verbatim>\<open>toFixed\<close> is
  modelled below \<open>10^21\<close>, where JavaScript does not switch to exponent notation.
  Unparsable dates (\<^verbatim>\<open>NaN\<close>) are not modelled: an API market with a missing or
  invalid expiry gets an Invalid Date and a \<^verbatim>\<open>NaN\<close> leverage in the code, which the
  model's \<open>timestamp\<close> and \<open>real\<close> cannot hold; C24 is stated for dated
  records, and C25, C38 do not read the expiry. The five \<^verbatim>\<open>new Date()\<close>
  calls of the mock module are taken as one instant, and \<^verbatim>\<open>setDate\<close> as whole days
  of milliseconds (no daylight-saving change). No fuel is needed: every recursion is
  structural, and the asynchronous card and the app are relations, not functions. The
  one unbounded behaviour, the card's sequence of completions, is shown finite by the
  measure \<open>length (in_flight s)\<close>. The app's clock is an input of each render
  that recomputes; the memo does not depend on time, which C7 makes explicit.

  \<^bold>\<open>Not modelled.\<close> CSS classes, layout and static decoration of the JSX; the
  chart's drawing (its data points are modelled); \<^verbatim>\<open>toLocaleDateString\<close> and the
  printing of non-integral numbers other than \<^verbatim>\<open>toFixed\<close> (the leverage badge, the
  dash array); the prompt text sent to the remote model and the model itself; the HTTP
  transport. React's scheduling is reduced to "each handler is followed by a render".
\<close>

end
